theory Spec2Isabelle
  imports Main "HOL-Library.Word" "HOL-Library.AList"
begin

section \<open>Errors\<close>

text \<open>
  Go's \<open>error\<close> interface values, as far as the operations build them: an opaque error
  carrying a message (what the adapter stores in \<open>hostHTTPResult.err\<close>, or
  \<open>fmt.Errorf\<close> without \<open>%w\<close>), \<open>fmt.Errorf\<close> with one \<open>%w\<close> verb (the text before
  the wrapped error, and the wrapped error), and the value of \<open>errors.Join\<close>.
  A Go \<open>error\<close> variable is \<open>goerror option\<close>, \<open>None\<close> being \<open>nil\<close>.
\<close>

datatype goerror =
    ErrorString string
  | Errorf string goerror
  | JoinError "goerror list"

type_synonym error = "goerror option"

text \<open>\<open>errors.Join(errs...)\<close>: nil values are discarded; nil when nothing is left.\<close>

definition errors_Join :: "error list \<Rightarrow> error" where
  "errors_Join errs =
     (let es = List.map_filter id errs in if es = [] then None else Some (JoinError es))"

text \<open>
  The tree an error wraps, as \<open>errors.Is\<close> walks it: the error itself, what
  \<open>Unwrap() error\<close> gives, and every member of \<open>Unwrap() []error\<close>.
\<close>

fun wrapped :: "goerror \<Rightarrow> goerror list" where
  "wrapped (ErrorString s) = [ErrorString s]"
| "wrapped (Errorf s e) = Errorf s e # wrapped e"
| "wrapped (JoinError es) = JoinError es # concat (map wrapped es)"

definition surfaces :: "goerror \<Rightarrow> error \<Rightarrow> bool" where
  "surfaces e r = (case r of None \<Rightarrow> False | Some t \<Rightarrow> e \<in> set (wrapped t))"

section \<open>Host results and their classification (cluster\_op.go)\<close>

datatype resultStatus = SUCCESS | FAILURE | EXCEPTION

definition SuccessCode :: int where "SuccessCode = 200"
definition MultipleChoiceCode :: int where "MultipleChoiceCode = 300"
definition UnauthorizedCode :: int where "UnauthorizedCode = 401"
definition InternalErrorCode :: int where "InternalErrorCode = 500"

record hostHTTPResult =
  status :: resultStatus
  statusCode :: int
  host :: string
  content :: string
  err :: error

definition isUnauthorizedRequest :: "hostHTTPResult \<Rightarrow> bool" where
  "isUnauthorizedRequest hostResult = (statusCode hostResult = UnauthorizedCode)"

definition isSuccess :: "hostHTTPResult \<Rightarrow> bool" where
  "isSuccess hostResult = (statusCode hostResult = SuccessCode)"

definition isInternalError :: "hostHTTPResult \<Rightarrow> bool" where
  "isInternalError hostResult = (statusCode hostResult = InternalErrorCode)"

definition isPassing :: "hostHTTPResult \<Rightarrow> bool" where
  "isPassing hostResult = (err hostResult = None)"

definition isHTTPRunning :: "hostHTTPResult \<Rightarrow> bool" where
  "isHTTPRunning hostResult =
     (if isPassing hostResult \<or> isUnauthorizedRequest hostResult \<or> isInternalError hostResult
      then True else False)"

definition isFailing :: "hostHTTPResult \<Rightarrow> bool" where
  "isFailing hostResult = (status hostResult = FAILURE)"

definition isException :: "hostHTTPResult \<Rightarrow> bool" where
  "isException hostResult = (status hostResult = EXCEPTION)"

section \<open>Quorum arithmetic (cluster\_op.go)\<close>

text \<open>
  \<open>hasQuorum\<close> takes two Go \<open>uint\<close> values, 64 bits wide on the platforms the tool is
  built for; \<open>+\<close> wraps and \<open>/\<close> is unsigned division. The message it prints on failure
  is left out.
\<close>

type_synonym uint = "64 word"

definition hasQuorum :: "uint \<Rightarrow> uint \<Rightarrow> bool" where
  "hasQuorum hostCount primaryNodeCount =
     (let quorumCount = (primaryNodeCount + 1) div 2
      in if hostCount < quorumCount then False else True)"

section \<open>Requests, operations and the execution context\<close>

definition PutMethod :: string where "PutMethod = ''PUT''"
definition DeleteMethod :: string where "DeleteMethod = ''DELETE''"


text \<open>
  Modelled from the spec: \<open>hostHTTPRequest\<close>, \<open>clusterHTTPRequest\<close> and the two
  endpoint builders are declared in a file that is not part of the sources. The spec gives
  a request as method, endpoint path, query parameters, request body and optional
  credentials, the path being a versioned endpoint \<open>v1/<resource>\<close>, and a cluster
  request as the map from host to request plus the operation name and a version tag. The
  fields below are the ones the operations assign. \<open>Password\<close> is a Go \<open>*string\<close>.
\<close>

record hostHTTPRequest =
  Method :: string
  Endpoint :: string
  IsNMACommand :: bool
  QueryParams :: "string \<rightharpoonup> string"
  RequestData :: string
  Username :: string
  Password :: "string option"




text \<open>
  \<open>RequestCollection\<close> is a Go map: \<open>None\<close> is the nil map, which can be read but not
  assigned to. \<open>ResultCollection\<close> is the map the dispatcher fills; the operations only
  range over it, so it is held as the list of its entries in the order one run of
  \<open>for host, result := range\<close> visits them. Go leaves that order open: a statement
  about every list is a statement about every order.
\<close>

type_synonym resultCollection = "(string \<times> hostHTTPResult) list"

record clusterHTTPRequest =
  RequestCollection :: "(string \<rightharpoonup> hostHTTPRequest) option"
  ResultCollection :: resultCollection
  Name :: string
  SemVar :: string

record opBase =
  name :: string
  hosts :: "string list"
  clusterHTTPRequest :: clusterHTTPRequest
  skipExecute :: bool


record NetworkProfile =
  npName :: string
  npAddress :: string
  npSubnet :: string
  npNetmask :: string
  npBroadcast :: string

text \<open>
  The execution context. The dispatcher is represented by the connections of its pool,
  one adapter per host, an adapter by the host it is bound to. The slots that none of
  the operations below touches are left out.
\<close>

record opEngineExecContext =
  connections :: "string \<rightharpoonup> string"
  networkProfiles :: "(string \<rightharpoonup> NetworkProfile) option"
  upHosts :: "string list"
  defaultSCName :: string



text \<open>
  \<open>fmt.Errorf\<close> with a format that ends in \<open>%w\<close>: the text before the verb and the
  operand. A nil operand is printed and not wrapped.
\<close>

definition Errorf_w :: "string \<Rightarrow> error \<Rightarrow> goerror" where
  "Errorf_w s operand =
     (case operand of None \<Rightarrow> ErrorString (s @ ''%!w(<nil>)'') | Some e \<Rightarrow> Errorf s e)"

section \<open>NMADeleteDirectoriesOp (nma\_delete\_dir\_op.go)\<close>

text \<open>
  \<open>util.GetJSONLogErrors\<close>, behind \<open>parseAndCheckResponse\<close>, is not among the sources:
  every operation below takes the decoder as its first argument, a function from the
  response content to the decoded object and the error. Logging is left out throughout.
\<close>

definition parseAndCheckResponse :: "(string \<Rightarrow> 'r \<times> error) \<Rightarrow> string \<Rightarrow> 'r \<times> error" where
  "parseAndCheckResponse GetJSON responseContent = GetJSON responseContent"

type_synonym opResponseMap = "string \<rightharpoonup> string"

definition parseAndCheckMapResponse ::
  "(string \<Rightarrow> opResponseMap \<times> error) \<Rightarrow> string \<Rightarrow> opResponseMap \<times> error" where
  "parseAndCheckMapResponse GetJSON responseContent = parseAndCheckResponse GetJSON responseContent"

record NMADeleteDirectoriesOp = opBase +
  hostRequestBodyMap :: "string \<rightharpoonup> string"

fun DeleteDirectories_results ::
  "(string \<Rightarrow> opResponseMap \<times> error) \<Rightarrow> error \<Rightarrow> resultCollection \<Rightarrow> error" where
  "DeleteDirectories_results GetJSON allErrs [] = allErrs"
| "DeleteDirectories_results GetJSON allErrs ((h, result) # rest) =
     (if isPassing result then
        (case snd (parseAndCheckMapResponse GetJSON (content result)) of
           Some e \<Rightarrow> DeleteDirectories_results GetJSON (errors_Join [allErrs, Some e]) rest
         | None \<Rightarrow> DeleteDirectories_results GetJSON allErrs rest)
      else DeleteDirectories_results GetJSON (errors_Join [allErrs, err result]) rest)"

definition DeleteDirectories_processResult ::
  "(string \<Rightarrow> opResponseMap \<times> error) \<Rightarrow> 'a NMADeleteDirectoriesOp_scheme \<Rightarrow> error" where
  "DeleteDirectories_processResult GetJSON op =
     DeleteDirectories_results GetJSON None (ResultCollection (clusterHTTPRequest op))"

section \<open>NMAGetScrutinizeTarOp\<close>

text \<open>
  The operation embeds \<open>ScrutinizeOpBase\<close>, which is declared outside the sources;
  of its fields the record has the two that \<open>processResult\<close> reads.
\<close>

record NMAGetScrutinizeTarOp = opBase +
  batch :: string
  hostNodeNameMap :: "string \<rightharpoonup> string"

fun GetScrutinizeTar_results :: "string \<Rightarrow> error \<Rightarrow> resultCollection \<Rightarrow> error" where
  "GetScrutinizeTar_results b allErrs [] = allErrs"
| "GetScrutinizeTar_results b allErrs ((h, result) # rest) =
     (if isPassing result then GetScrutinizeTar_results b allErrs rest
      else if isInternalError result then GetScrutinizeTar_results b allErrs rest
      else GetScrutinizeTar_results b
             (errors_Join [allErrs,
                Some (Errorf_w (''failed to retrieve tarball batch '' @ b @ '' on host '' @ h
                                 @ '', details '') (err result))])
             rest)"

definition GetScrutinizeTar_processResult :: "'a NMAGetScrutinizeTarOp_scheme \<Rightarrow> error" where
  "GetScrutinizeTar_processResult op =
     GetScrutinizeTar_results (batch op) None (ResultCollection (clusterHTTPRequest op))"

section \<open>Building the requests of an operation\<close>

text \<open>
  The loop the three \<open>setupClusterHTTPRequest\<close> methods share: for each host, in the
  order of the list, build the host's request and assign it to
  \<open>RequestCollection[host]\<close>. An assignment to an entry of a nil map panics.
\<close>

datatype panic = AssignmentToEntryInNilMap | NilPointerDereference

fun assignRequests ::
  "(string \<Rightarrow> hostHTTPRequest) \<Rightarrow> string list \<Rightarrow> (string \<rightharpoonup> hostHTTPRequest) option
     \<Rightarrow> panic + (string \<rightharpoonup> hostHTTPRequest) option" where
  "assignRequests httpRequest [] collection = Inr collection"
| "assignRequests httpRequest (h # hostList) collection =
     (case collection of
        None \<Rightarrow> Inl AssignmentToEntryInNilMap
      | Some m \<Rightarrow> assignRequests httpRequest hostList (Some (m(h \<mapsto> httpRequest h))))"

text \<open>The methods return the operation and the \<open>error\<close>, which is always nil.\<close>

definition storeRequests ::
  "(string \<Rightarrow> hostHTTPRequest) \<Rightarrow> string list \<Rightarrow> 'a opBase_scheme
     \<Rightarrow> panic + ('a opBase_scheme \<times> error)" where
  "storeRequests httpRequest hostList op =
     (case assignRequests httpRequest hostList (RequestCollection (clusterHTTPRequest op)) of
        Inl p \<Rightarrow> Inl p
      | Inr collection \<Rightarrow>
          Inr (op\<lparr>clusterHTTPRequest :=
                    (clusterHTTPRequest op)\<lparr>RequestCollection := collection\<rparr>\<rparr>, None))"




type_synonym NMANetworkProfileOp = opBase



text \<open>
  \<open>HTTPSFindSubclusterOp\<close> embeds \<open>opBase\<close> and \<open>opHTTPSBase\<close>; the fields of the
  second follow those of the first. \<open>httpsPassword\<close> is a Go \<open>*string\<close>.
\<close>

record HTTPSFindSubclusterOp = opBase +
  useHTTPPassword :: bool
  httpsPassword :: "string option"
  userName :: string
  scName :: string
  ignoreNotFound :: bool



section \<open>HTTPSFindSubclusterOp.processResult (https\_find\_subcluster\_op.go)\<close>

record SubclusterInfo =
  SCName :: string
  IsDefault :: bool

type_synonym SCResp = "SubclusterInfo list"

text \<open>
  The scan of \<open>scResp.SCInfoList\<close>. Its state is \<open>foundNamedSc\<close>, \<open>foundDefaultSc\<close> and
  the slot \<open>execContext.defaultSCName\<close>, which the scan writes at each entry with
  \<open>is_default\<close>; the scan stops at the entry where both flags are set.
\<close>

fun scanSCInfoList :: "string \<Rightarrow> SCResp \<Rightarrow> bool \<times> bool \<times> string \<Rightarrow> bool \<times> bool \<times> string" where
  "scanSCInfoList sc [] st = st"
| "scanSCInfoList sc (scInfo # rest) (foundNamedSc, foundDefaultSc, dflt) =
     (let foundNamedSc' = (if SCName scInfo = sc then True else foundNamedSc);
          foundDefaultSc' = (if IsDefault scInfo then True else foundDefaultSc);
          dflt' = (if IsDefault scInfo then SCName scInfo else dflt)
      in if foundNamedSc' \<and> foundDefaultSc' then (foundNamedSc', foundDefaultSc', dflt')
         else scanSCInfoList sc rest (foundNamedSc', foundDefaultSc', dflt'))"

fun FindSubcluster_results ::
  "(string \<Rightarrow> SCResp \<times> error) \<Rightarrow> string \<Rightarrow> string \<Rightarrow> bool \<Rightarrow> opEngineExecContext \<Rightarrow> error
     \<Rightarrow> resultCollection \<Rightarrow> error \<times> opEngineExecContext" where
  "FindSubcluster_results GetJSON opName sc ignore execContext allErrs [] = (allErrs, execContext)"
| "FindSubcluster_results GetJSON opName sc ignore execContext allErrs ((h, result) # rest) =
     (if isUnauthorizedRequest result then (err result, execContext)
      else if \<not> isPassing result then
        FindSubcluster_results GetJSON opName sc ignore execContext
          (errors_Join [allErrs, err result]) rest
      else
        (case parseAndCheckResponse GetJSON (content result) of
           (scResp, Some e) \<Rightarrow>
             (errors_Join [allErrs,
                Some (Errorf (''['' @ opName @ ''] fail to parse result on host '' @ h
                               @ '', details: '') e)],
              execContext)
         | (scResp, None) \<Rightarrow>
             (case scanSCInfoList sc scResp (False, False, defaultSCName execContext) of
                (foundNamedSc, foundDefaultSc, dflt) \<Rightarrow>
                  (let execContext' = execContext\<lparr>defaultSCName := dflt\<rparr>
                   in if sc \<noteq> [] \<and> \<not> ignore \<and> \<not> foundNamedSc then
                        (errors_Join [allErrs,
                           Some (ErrorString (''['' @ opName @ ''] subcluster '' @ [CHR 0x27] @ sc
                                   @ [CHR 0x27] @ '' does not exist in the database''))],
                         execContext')
                      else if \<not> foundDefaultSc then
                        (errors_Join [allErrs,
                           Some (ErrorString (''['' @ opName
                                   @ ''] cannot find a default subcluster in the database''))],
                         execContext')
                      else (None, execContext')))))"

definition FindSubcluster_processResult ::
  "(string \<Rightarrow> SCResp \<times> error) \<Rightarrow> 'a HTTPSFindSubclusterOp_scheme \<Rightarrow> opEngineExecContext
     \<Rightarrow> error \<times> opEngineExecContext" where
  "FindSubcluster_processResult GetJSON op execContext =
     FindSubcluster_results GetJSON (name op) (scName op) (ignoreNotFound op) execContext None
       (ResultCollection (clusterHTTPRequest op))"

section \<open>NMANetworkProfileOp.processResult (nma\_network\_profile\_op.go)\<close>

text \<open>
  \<open>util.CheckMissingFields\<close> is not among the sources either and is the second argument
  of \<open>parseResponse\<close>.
\<close>

definition parseResponse ::
  "(string \<Rightarrow> NetworkProfile \<times> error) \<Rightarrow> (NetworkProfile \<Rightarrow> error) \<Rightarrow> string
     \<Rightarrow> NetworkProfile \<times> error" where
  "parseResponse GetJSON CheckMissingFields resultContent =
     (case parseAndCheckResponse GetJSON resultContent of
        (responseObj, Some e) \<Rightarrow> (responseObj, Some e)
      | (responseObj, None) \<Rightarrow> (responseObj, CheckMissingFields responseObj))"

fun NetworkProfile_results ::
  "(string \<Rightarrow> NetworkProfile \<times> error) \<Rightarrow> (NetworkProfile \<Rightarrow> error) \<Rightarrow> string
     \<Rightarrow> opEngineExecContext \<Rightarrow> error \<Rightarrow> (string \<rightharpoonup> NetworkProfile) \<Rightarrow> resultCollection
     \<Rightarrow> error \<times> opEngineExecContext" where
  "NetworkProfile_results GetJSON CheckMissingFields opName execContext allErrs allNetProfiles [] =
     (allErrs, execContext\<lparr>networkProfiles := Some allNetProfiles\<rparr>)"
| "NetworkProfile_results GetJSON CheckMissingFields opName execContext allErrs allNetProfiles
     ((h, result) # rest) =
     (if isPassing result then
        (case parseResponse GetJSON CheckMissingFields (content result) of
           (profile, Some e) \<Rightarrow>
             (Some (Errorf (''['' @ opName @ ''] fail to parse network profile on host '' @ h
                             @ '', details: '') e),
              execContext)
         | (profile, None) \<Rightarrow>
             NetworkProfile_results GetJSON CheckMissingFields opName execContext allErrs
               (allNetProfiles(h \<mapsto> profile)) rest)
      else
        NetworkProfile_results GetJSON CheckMissingFields opName execContext
          (errors_Join [allErrs, err result]) allNetProfiles rest)"

definition NetworkProfile_processResult ::
  "(string \<Rightarrow> NetworkProfile \<times> error) \<Rightarrow> (NetworkProfile \<Rightarrow> error) \<Rightarrow> 'a opBase_scheme
     \<Rightarrow> opEngineExecContext \<Rightarrow> error \<times> opEngineExecContext" where
  "NetworkProfile_processResult GetJSON CheckMissingFields op execContext =
     NetworkProfile_results GetJSON CheckMissingFields (name op) execContext None Map.empty
       (ResultCollection (clusterHTTPRequest op))"

section \<open>Sensitive fields and their masking (cluster\_op.go)\<close>

text \<open>
  A Go map is a reference: a value of type \<open>map[string]string\<close> is nil or the address of
  a table, and copying a struct copies the address, not the table. The tables live in a
  heap; a table is the list of its entries, in the order \<open>range\<close> visits them.
  \<open>Parameters\<close> is such a reference.
\<close>

type_synonym table = "(string \<times> string) list"
type_synonym mapref = "nat option"
type_synonym heap = "nat \<Rightarrow> table"

record sensitiveFields =
  DBPassword :: string
  AWSAccessKeyID :: string
  AWSSecretAccessKey :: string
  Parameters :: mapref

definition maskedValue :: string where
  "maskedValue = ''******''"

text \<open>The lookup \<open>sensitiveKeyParams[keyLowerCase]\<close>: false for a key the map lacks.\<close>

definition sensitiveKeyParams :: "string \<Rightarrow> bool" where
  "sensitiveKeyParams k =
     (case map_of [(''awsauth'', True), (''awssessiontoken'', True), (''gcsauth'', True),
                   (''azurestoragecredentials'', True)] k of
        None \<Rightarrow> False | Some b \<Rightarrow> b)"

text \<open>
  The loop over the keys of the table. \<open>strings.ToLower\<close> belongs to the Go library and
  is the first argument. The assignment \<open>Parameters[key] = maskedValue\<close> writes to a key
  that the table has.
\<close>

fun maskParameters :: "(string \<Rightarrow> string) \<Rightarrow> string list \<Rightarrow> table \<Rightarrow> table" where
  "maskParameters ToLower [] t = t"
| "maskParameters ToLower (key # keys) t =
     (let keyLowerCase = ToLower key
      in if sensitiveKeyParams keyLowerCase
         then maskParameters ToLower keys (AList.update key maskedValue t)
         else maskParameters ToLower keys t)"

definition maskSensitiveInfo ::
  "(string \<Rightarrow> string) \<Rightarrow> 'a sensitiveFields_scheme \<Rightarrow> heap \<Rightarrow> 'a sensitiveFields_scheme \<times> heap" where
  "maskSensitiveInfo ToLower maskedData hp =
     (let maskedData' = maskedData\<lparr>DBPassword := maskedValue, AWSAccessKeyID := maskedValue,
                                   AWSSecretAccessKey := maskedValue\<rparr>
      in case Parameters maskedData' of
           None \<Rightarrow> (maskedData', hp)
         | Some a \<Rightarrow> (maskedData', hp(a := maskParameters ToLower (map fst (hp a)) (hp a))))"

section \<open>NMABootstrapCatalogOp: the request bodies\<close>

text \<open>
  \<open>bootstrapCatalogRequestData\<close> embeds the sensitive fields and declares a field
  \<open>Parameters\<close> of its own. In Go the field at the smaller depth hides the embedded one:
  the selector \<open>bootstrapData.Parameters\<close> and the JSON key \<open>parameters\<close> are the
  struct's own field, here \<open>ownParameters\<close>, while \<open>maskSensitiveInfo\<close>, a method of
  the embedded struct, works on the embedded \<open>Parameters\<close>. The embedding is the record
  extension, so that the method applies to the whole struct as the promoted method does.
  The file of the operation writes the embedded type \<open>SensitiveFields\<close>; its declaration
  among the sources is \<open>sensitiveFields\<close> of cluster\_op.go.
\<close>

record bootstrapCatalogRequestData = sensitiveFields +
  DBName :: string
  Host :: string
  NodeName :: string
  CatalogPath :: string
  StorageLocation :: string
  PortNumber :: int
  ownParameters :: mapref
  ControlAddr :: string
  BroadcastAddr :: string
  LicenseKey :: string
  ControlPort :: string
  LargeCluster :: int
  NetworkingMode :: string
  SpreadLogging :: bool
  SpreadLoggingLevel :: int
  Ipv6 :: bool
  NumShards :: int
  CommunalStorageURL :: string

definition zeroRequestData :: bootstrapCatalogRequestData where
  "zeroRequestData =
     \<lparr>DBPassword = [], AWSAccessKeyID = [], AWSSecretAccessKey = [], Parameters = None,
      DBName = [], Host = [], NodeName = [], CatalogPath = [], StorageLocation = [],
      PortNumber = 0, ownParameters = None, ControlAddr = [], BroadcastAddr = [],
      LicenseKey = [], ControlPort = [], LargeCluster = 0, NetworkingMode = [],
      SpreadLogging = False, SpreadLoggingLevel = 0, Ipv6 = False, NumShards = 0,
      CommunalStorageURL = []\<rparr>"

text \<open>
  The database, its nodes and the options are declared outside the sources; the records
  hold the fields that \<open>setupRequestBody\<close> reads. A field read through a pointer
  (\<open>*options.LargeCluster\<close>) is an option, and reading it when nil panics.
  \<open>optIpv6\<close> is the value of \<open>options.Ipv6.ToBool()\<close>. A host that
  \<open>vdb.HostNodeMap\<close> lacks reads as the zero node.
\<close>

record VCoordinationNode =
  vnodeName :: string
  vnodeCatalogPath :: string
  vnodeStorageLocations :: "string list"
  vnodePort :: int
  vnodeAddress :: string

definition zeroNode :: VCoordinationNode where
  "zeroNode = \<lparr>vnodeName = [], vnodeCatalogPath = [], vnodeStorageLocations = [],
               vnodePort = 0, vnodeAddress = []\<rparr>"

record VCoordinationDatabase =
  vdbName :: string
  HostNodeMap :: "string \<rightharpoonup> VCoordinationNode"
  LicensePathOnNode :: string
  vdbNumShards :: int
  CommunalStorageLocation :: string
  AwsIDKey :: string
  AwsSecretKey :: string

record VCreateDatabaseOptions =
  ConfigurationParameters :: mapref
  optLargeCluster :: "int option"
  optP2p :: "bool option"
  optSpreadLogging :: "bool option"
  optSpreadLoggingLevel :: "int option"
  optIpv6 :: bool
  optPassword :: "string option"

type_synonym requestBodies = "string \<rightharpoonup> bootstrapCatalogRequestData"

fun setupRequestBody_hosts ::
  "string \<Rightarrow> VCoordinationDatabase \<Rightarrow> VCreateDatabaseOptions \<Rightarrow> string list \<Rightarrow> requestBodies
     \<Rightarrow> panic + (requestBodies \<times> error)" where
  "setupRequestBody_hosts opName vdb options [] bodies = Inr (bodies, None)"
| "setupRequestBody_hosts opName vdb options (h # rest) bodies =
     (let vnode = (case HostNodeMap vdb h of None \<Rightarrow> zeroNode | Some n \<Rightarrow> n)
      in case vnodeStorageLocations vnode of
           [] \<Rightarrow> Inr (bodies, Some (ErrorString (''['' @ opName @ ''] the storage locations is empty'')))
         | location # _ \<Rightarrow>
             (case (optLargeCluster options, optP2p options, optSpreadLogging options,
                    optSpreadLoggingLevel options, optPassword options) of
                (Some largeCluster, Some p2p, Some spreadLogging, Some spreadLoggingLevel,
                 Some password) \<Rightarrow>
                  setupRequestBody_hosts opName vdb options rest
                    (bodies(h \<mapsto> zeroRequestData
                       \<lparr>DBName := vdbName vdb,
                        Host := h,
                        NodeName := vnodeName vnode,
                        CatalogPath := vnodeCatalogPath vnode,
                        StorageLocation := location,
                        PortNumber := vnodePort vnode,
                        ownParameters := ConfigurationParameters options,
                        ControlAddr := vnodeAddress vnode,
                        LicenseKey := LicensePathOnNode vdb,
                        LargeCluster := largeCluster,
                        NetworkingMode := (if p2p then ''pt2pt'' else ''broadcast''),
                        SpreadLogging := spreadLogging,
                        SpreadLoggingLevel := spreadLoggingLevel,
                        Ipv6 := optIpv6 options,
                        DBPassword := password,
                        NumShards := vdbNumShards vdb,
                        CommunalStorageURL := CommunalStorageLocation vdb,
                        AWSAccessKeyID := AwsIDKey vdb,
                        AWSSecretAccessKey := AwsSecretKey vdb\<rparr>))
              | _ \<Rightarrow> Inl NilPointerDereference))"

definition setupRequestBody ::
  "string \<Rightarrow> string list \<Rightarrow> VCoordinationDatabase \<Rightarrow> VCreateDatabaseOptions
     \<Rightarrow> panic + (requestBodies \<times> error)" where
  "setupRequestBody opName hostList vdb options =
     setupRequestBody_hosts opName vdb options hostList Map.empty"

text \<open>
  \<open>json.Marshal\<close> belongs to the Go library and is an argument: it reads the struct and,
  through the reference in the struct's own \<open>Parameters\<close> field, the table in the heap
  at the time of the call; it returns the bytes and the error.
\<close>

type_synonym marshaller = "bootstrapCatalogRequestData \<Rightarrow> table option \<Rightarrow> string \<times> error"

definition json_Marshal :: "marshaller \<Rightarrow> heap \<Rightarrow> bootstrapCatalogRequestData \<Rightarrow> string \<times> error" where
  "json_Marshal Marshal hp v = Marshal v (map_option hp (ownParameters v))"

text \<open>
  \<open>updateRequestBody\<close>. The state of the loop is \<open>op.hostRequestBodyMap\<close>,
  \<open>op.marshaledRequestBodyMap\<close>, the local \<open>maskedRequestBodyMap\<close> and the heap; the
  network profiles are the entries of \<open>execContext.networkProfiles\<close> in the order the
  loop visits them. The function returns nil on both of its paths, so the result is the
  state alone.
\<close>

type_synonym updateState =
  "requestBodies \<times> (string \<rightharpoonup> string) \<times> requestBodies \<times> heap"

fun updateRequestBody_profiles ::
  "marshaller \<Rightarrow> (string \<Rightarrow> string) \<Rightarrow> (string \<times> NetworkProfile) list \<Rightarrow> updateState
     \<Rightarrow> updateState" where
  "updateRequestBody_profiles Marshal ToLower [] st = st"
| "updateRequestBody_profiles Marshal ToLower ((h, profile) # rest)
     (bodies, marshaledRequestBodyMap, maskedRequestBodyMap, hp) =
     (let requestBody = (case bodies h of None \<Rightarrow> zeroRequestData | Some b \<Rightarrow> b)
                          \<lparr>BroadcastAddr := npBroadcast profile\<rparr>;
          bodies' = bodies(h \<mapsto> requestBody)
      in case json_Marshal Marshal hp (case bodies' h of None \<Rightarrow> zeroRequestData | Some b \<Rightarrow> b) of
           (dataBytes, Some e) \<Rightarrow> (bodies', marshaledRequestBodyMap, maskedRequestBodyMap, hp)
         | (dataBytes, None) \<Rightarrow>
             (case maskSensitiveInfo ToLower requestBody hp of
                (maskedData, hp') \<Rightarrow>
                  updateRequestBody_profiles Marshal ToLower rest
                    (bodies', marshaledRequestBodyMap(h \<mapsto> dataBytes),
                     maskedRequestBodyMap(h \<mapsto> maskedData), hp')))"

definition updateRequestBody ::
  "marshaller \<Rightarrow> (string \<Rightarrow> string) \<Rightarrow> requestBodies \<Rightarrow> (string \<times> NetworkProfile) list \<Rightarrow> heap
     \<Rightarrow> updateState" where
  "updateRequestBody Marshal ToLower bodies profiles hp =
     updateRequestBody_profiles Marshal ToLower profiles (bodies, Map.empty, Map.empty, hp)"

text \<open>
  The request body of a host after the first statements of the loop of
  \<open>updateRequestBody\<close>: the body stored for the host, or the zero struct, with the
  broadcast address of the profile.
\<close>

definition withBroadcast ::
  "requestBodies \<Rightarrow> string \<Rightarrow> NetworkProfile \<Rightarrow> bootstrapCatalogRequestData" where
  "withBroadcast bodies h profile =
     (case bodies h of None \<Rightarrow> zeroRequestData | Some b \<Rightarrow> b)\<lparr>BroadcastAddr := npBroadcast profile\<rparr>"

section \<open>Example inputs\<close>

definition exampleResult :: "string \<Rightarrow> int \<Rightarrow> string \<Rightarrow> error \<Rightarrow> hostHTTPResult" where
  "exampleResult h code body e =
     \<lparr>status = (if e = None then SUCCESS else FAILURE), statusCode = code, host = h,
      content = body, err = e\<rparr>"

definition exampleRequest :: "resultCollection \<Rightarrow> clusterHTTPRequest" where
  "exampleRequest results =
     \<lparr>RequestCollection = Some Map.empty, ResultCollection = results, Name = ''op'',
      SemVar = ''1.0.0''\<rparr>"

definition exampleDeleteOp :: NMADeleteDirectoriesOp where
  "exampleDeleteOp =
     \<lparr>name = ''NMADeleteDirectoriesOp'', hosts = [''10.0.0.1'', ''10.0.0.2''],
      clusterHTTPRequest = exampleRequest
        [(''10.0.0.1'', exampleResult ''10.0.0.1'' 200 ''{}'' None),
         (''10.0.0.2'', exampleResult ''10.0.0.2'' 500 [] (Some (ErrorString ''disk error'')))],
      skipExecute = False, hostRequestBodyMap = Map.empty\<rparr>"

definition exampleScrutinizeOp :: NMAGetScrutinizeTarOp where
  "exampleScrutinizeOp =
     \<lparr>name = ''NMAGetScrutinizeTarOp'', hosts = [''10.0.0.1'', ''10.0.0.2''],
      clusterHTTPRequest = exampleRequest
        [(''10.0.0.1'', exampleResult ''10.0.0.1'' 500 [] (Some (ErrorString ''tar failed''))),
         (''10.0.0.2'', exampleResult ''10.0.0.2'' 404 [] (Some (ErrorString ''no such batch'')))],
      skipExecute = False, batch = ''b1'', hostNodeNameMap = Map.empty\<rparr>"

definition exampleFindOp :: "string \<Rightarrow> bool \<Rightarrow> resultCollection \<Rightarrow> HTTPSFindSubclusterOp" where
  "exampleFindOp sc ignore results =
     \<lparr>name = ''HTTPSFindSubclusterOp'', hosts = map fst results,
      clusterHTTPRequest = exampleRequest results, skipExecute = False,
      useHTTPPassword = False, httpsPassword = None, userName = [], scName = sc,
      ignoreNotFound = ignore\<rparr>"

definition exampleContext :: opEngineExecContext where
  "exampleContext = \<lparr>connections = Map.empty, networkProfiles = None, upHosts = [],
                      defaultSCName = []\<rparr>"

definition exampleHeap :: heap where
  "exampleHeap = (\<lambda>a. [])(0 := [(''AWSAuth'', ''key:secret''), (''KsafeLevel'', ''1'')])"

definition exampleSensitiveFields :: sensitiveFields where
  "exampleSensitiveFields =
     \<lparr>DBPassword = ''pw'', AWSAccessKeyID = ''id'', AWSSecretAccessKey = ''secret'',
      Parameters = Some 0\<rparr>"

text \<open>Lower case for the letters of ASCII, the other bytes unchanged.\<close>

definition asciiToLower :: "string \<Rightarrow> string" where
  "asciiToLower s =
     map (\<lambda>c. case map_of (zip ''ABCDEFGHIJKLMNOPQRSTUVWXYZ'' ''abcdefghijklmnopqrstuvwxyz'') c of
                 None \<Rightarrow> c | Some l \<Rightarrow> l) s"

definition exampleProfileOp :: "resultCollection \<Rightarrow> opBase" where
  "exampleProfileOp results =
     \<lparr>name = ''NMANetworkProfileOp'', hosts = map fst results,
      clusterHTTPRequest = exampleRequest results, skipExecute = False\<rparr>"

definition exampleProfile :: NetworkProfile where
  "exampleProfile =
     \<lparr>npName = ''eth0'', npAddress = ''192.168.100.1'', npSubnet = ''192.168.0.0/16'',
      npNetmask = ''255.255.0.0'', npBroadcast = ''192.168.255.255''\<rparr>"

definition exampleGetProfile :: "string \<Rightarrow> NetworkProfile \<times> error" where
  "exampleGetProfile c =
     (if c = ''eth0'' then (exampleProfile, None)
      else if c = ''partial'' then (exampleProfile\<lparr>npBroadcast := []\<rparr>, None)
      else (exampleProfile\<lparr>npName := []\<rparr>, Some (ErrorString ''invalid JSON'')))"

definition exampleCheckMissingFields :: "NetworkProfile \<Rightarrow> error" where
  "exampleCheckMissingFields p =
     (if npName p = [] \<or> npAddress p = [] \<or> npSubnet p = [] \<or> npNetmask p = []
         \<or> npBroadcast p = []
      then Some (ErrorString ''missing field'') else None)"

definition exampleSubclusters :: "string \<Rightarrow> SCResp \<times> error" where
  "exampleSubclusters c =
     (if c = ''subclusters''
      then ([\<lparr>SCName = ''default_subcluster'', IsDefault = True\<rparr>,
             \<lparr>SCName = ''sc1'', IsDefault = False\<rparr>], None)
      else ([], Some (ErrorString ''invalid JSON'')))"

definition exampleVdb :: VCoordinationDatabase where
  "exampleVdb =
     \<lparr>vdbName = ''test_db'',
      HostNodeMap =
        [''10.0.0.1'' \<mapsto> \<lparr>vnodeName = ''v_test_db_node0001'', vnodeCatalogPath = ''/catalog'',
                           vnodeStorageLocations = [''/data''], vnodePort = 5433,
                           vnodeAddress = ''10.0.0.1''\<rparr>,
         ''10.0.0.2'' \<mapsto> \<lparr>vnodeName = ''v_test_db_node0002'', vnodeCatalogPath = ''/catalog'',
                           vnodeStorageLocations = [''/data''], vnodePort = 5433,
                           vnodeAddress = ''10.0.0.2''\<rparr>],
      LicensePathOnNode = ''/tmp/license.key'', vdbNumShards = 0, CommunalStorageLocation = [],
      AwsIDKey = ''id'', AwsSecretKey = ''secret''\<rparr>"

definition exampleOptions :: VCreateDatabaseOptions where
  "exampleOptions =
     \<lparr>ConfigurationParameters = Some 0, optLargeCluster = Some (-1), optP2p = Some True,
      optSpreadLogging = Some False, optSpreadLoggingLevel = Some (-1), optIpv6 = False,
      optPassword = Some ''pw''\<rparr>"

definition exampleBody :: "string \<Rightarrow> string \<Rightarrow> string \<Rightarrow> bootstrapCatalogRequestData" where
  "exampleBody h node broadcast =
     \<lparr>DBPassword = ''pw'', AWSAccessKeyID = ''id'', AWSSecretAccessKey = ''secret'',
      Parameters = None, DBName = ''test_db'', Host = h, NodeName = node,
      CatalogPath = ''/catalog'', StorageLocation = ''/data'', PortNumber = 5433,
      ownParameters = Some 0, ControlAddr = h, BroadcastAddr = broadcast,
      LicenseKey = ''/tmp/license.key'', ControlPort = [], LargeCluster = -1,
      NetworkingMode = ''pt2pt'', SpreadLogging = False, SpreadLoggingLevel = -1, Ipv6 = False,
      NumShards = 0, CommunalStorageURL = []\<rparr>"

text \<open>A stand-in for \<open>json.Marshal\<close> that prints the host, the password and the parameters.\<close>

definition exampleMarshal :: marshaller where
  "exampleMarshal v t =
     (Host v @ '' '' @ DBPassword v
        @ concat (map (\<lambda>(k, x). '' '' @ k @ ''='' @ x) (case t of None \<Rightarrow> [] | Some kv \<Rightarrow> kv)),
      None)"

definition exampleNetworkProfiles :: "(string \<times> NetworkProfile) list" where
  "exampleNetworkProfiles =
     [(''10.0.0.1'', exampleProfile), (''10.0.0.2'', exampleProfile\<lparr>npAddress := ''192.168.100.2''\<rparr>)]"


section \<open>Properties\<close>

lemma hasQuorum_unat:
  "hasQuorum hostCount primaryNodeCount
     \<longleftrightarrow> ((unat primaryNodeCount + 1) mod 2 ^ 64) div 2 \<le> unat hostCount"
  by (simp add: hasQuorum_def Let_def word_less_nat_alt unat_div unat_word_ariths not_less)

text \<open>
  C1. The code is evaluated at two hosts out of four primary nodes: \<open>hasQuorum\<close>
  answers true, although two is less than \<open>floor(4/2) + 1 = 3\<close>, the count that the
  comment above the function gives as the quorum.
\<close>

theorem hasQuorum_two_of_four:
  "hasQuorum 2 4 \<and> \<not> (unat (4 :: uint) div 2 + 1 \<le> unat (2 :: uint))"
  by (simp add: hasQuorum_unat)

text \<open>
  C4. With five primary nodes \<open>hasQuorum\<close> is true exactly from three hosts on, with one
  primary node exactly from one host on, and with no primary node for every host count.
\<close>

theorem hasQuorum_five_one_zero:
  "(\<forall>hostCount. hasQuorum hostCount 5 \<longleftrightarrow> 3 \<le> unat hostCount)
   \<and> (\<forall>hostCount. hasQuorum hostCount 1 \<longleftrightarrow> 1 \<le> unat hostCount)
   \<and> (\<forall>hostCount. hasQuorum hostCount 0)"
  by (simp add: hasQuorum_unat)

subsection \<open>Host results\<close>

lemma status_codes [simp]: "UnauthorizedCode = 401" "InternalErrorCode = 500" "SuccessCode = 200"
  by (simp_all add: UnauthorizedCode_def InternalErrorCode_def SuccessCode_def)

text \<open>
  C5, as amended. For every host result: \<open>isUnauthorizedRequest\<close> holds exactly for
  status code 401, \<open>isInternalError\<close> exactly for 500, \<open>isPassing\<close> exactly for a nil
  error, \<open>isHTTPRunning\<close> exactly when one of the three holds; none of the four depends
  on the fields \<open>status\<close>, \<open>host\<close> and \<open>content\<close>; and a result is both passing and
  unauthorized exactly when its error is nil and its status code is 401, which the
  struct allows.
\<close>

theorem classification_of_host_results:
  "(isUnauthorizedRequest r \<longleftrightarrow> statusCode r = 401)
   \<and> (isInternalError r \<longleftrightarrow> statusCode r = 500)
   \<and> (isPassing r \<longleftrightarrow> err r = None)
   \<and> (isHTTPRunning r \<longleftrightarrow> isPassing r \<or> isUnauthorizedRequest r \<or> isInternalError r)
   \<and> isUnauthorizedRequest (r\<lparr>status := s, host := h, content := c\<rparr>) = isUnauthorizedRequest r
   \<and> isInternalError (r\<lparr>status := s, host := h, content := c\<rparr>) = isInternalError r
   \<and> isPassing (r\<lparr>status := s, host := h, content := c\<rparr>) = isPassing r
   \<and> isHTTPRunning (r\<lparr>status := s, host := h, content := c\<rparr>) = isHTTPRunning r
   \<and> (isPassing r \<and> isUnauthorizedRequest r \<longleftrightarrow> err r = None \<and> statusCode r = 401)"
  by (simp add: isUnauthorizedRequest_def isInternalError_def isPassing_def isHTTPRunning_def)

text \<open>
  C5 as stated fails: the result with status code 401 and a nil error is both passing
  and unauthorized.
\<close>

theorem passing_and_unauthorized:
  "isPassing \<lparr>status = SUCCESS, statusCode = 401, host = ''10.0.0.1'', content = [], err = None\<rparr>
   \<and> isUnauthorizedRequest
        \<lparr>status = SUCCESS, statusCode = 401, host = ''10.0.0.1'', content = [], err = None\<rparr>"
  by (simp add: isUnauthorizedRequest_def isPassing_def)

lemma wrapped_self: "e \<in> set (wrapped e)"
  by (cases e) simp_all

lemma surfaces_self: "surfaces e (Some e)"
  by (simp add: surfaces_def wrapped_self)

lemma errors_Join_pair:
  "errors_Join [a, b] =
     (case (a, b) of (None, None) \<Rightarrow> None | (Some x, None) \<Rightarrow> Some (JoinError [x])
      | (None, Some y) \<Rightarrow> Some (JoinError [y]) | (Some x, Some y) \<Rightarrow> Some (JoinError [x, y]))"
  by (simp add: errors_Join_def List.map_filter_simps split: option.splits)

lemma surfaces_Join_left: "surfaces e acc \<Longrightarrow> surfaces e (errors_Join [acc, x])"
  by (auto simp: errors_Join_pair surfaces_def split: option.splits)

lemma surfaces_Join_right: "surfaces e x \<Longrightarrow> surfaces e (errors_Join [acc, x])"
  by (auto simp: errors_Join_pair surfaces_def split: option.splits)

lemma surfaces_Errorf: "surfaces e (Some (Errorf s e))"
  by (simp add: surfaces_def wrapped_self)

lemma DeleteDirectories_results_keeps:
  "surfaces e acc \<Longrightarrow> surfaces e (DeleteDirectories_results G acc rc)"
  by (induction G acc rc rule: DeleteDirectories_results.induct)
     (auto simp: surfaces_Join_left split: option.splits)

lemma DeleteDirectories_results_surfaces:
  "(h, r) \<in> set rc \<Longrightarrow> err r = Some e \<Longrightarrow> surfaces e (DeleteDirectories_results G acc rc)"
proof (induction G acc rc rule: DeleteDirectories_results.induct)
  case (1 G acc)
  then show ?case by simp
next
  case (2 G acc h' r' rest)
  show ?case
  proof (cases "(h, r) = (h', r')")
    case True
    with 2 have "\<not> isPassing r'" by (simp add: isPassing_def)
    moreover have "surfaces e (errors_Join [acc, err r'])"
      using True 2 by (simp add: surfaces_Join_right surfaces_self)
    ultimately show ?thesis by (simp add: DeleteDirectories_results_keeps)
  next
    case False
    with "2.prems" have "(h, r) \<in> set rest" by auto
    with 2 show ?thesis by (simp split: option.splits)
  qed
qed

lemma GetScrutinizeTar_results_keeps:
  "surfaces e acc \<Longrightarrow> surfaces e (GetScrutinizeTar_results b acc rc)"
  by (induction b acc rc rule: GetScrutinizeTar_results.induct)
     (auto simp: surfaces_Join_left)

lemma GetScrutinizeTar_results_surfaces:
  "(h, r) \<in> set rc \<Longrightarrow> err r = Some e \<Longrightarrow> \<not> isInternalError r
     \<Longrightarrow> surfaces e (GetScrutinizeTar_results b acc rc)"
proof (induction b acc rc rule: GetScrutinizeTar_results.induct)
  case (1 b acc)
  then show ?case by simp
next
  case (2 b acc h' r' rest)
  show ?case
  proof (cases "(h, r) = (h', r')")
    case True
    with 2 have np: "\<not> isPassing r'" "\<not> isInternalError r'" by (simp_all add: isPassing_def)
    have "surfaces e (errors_Join [acc, Some (Errorf_w s (err r'))])" for s
      using True 2 by (simp add: surfaces_Join_right surfaces_Errorf Errorf_w_def)
    with np show ?thesis by (simp add: GetScrutinizeTar_results_keeps)
  next
    case False
    with "2.prems" have "(h, r) \<in> set rest" by auto
    with 2 show ?thesis by simp
  qed
qed

lemma GetScrutinizeTar_results_skips:
  "GetScrutinizeTar_results b acc (filter (\<lambda>(h, r). isPassing r \<or> \<not> isInternalError r) rc)
     = GetScrutinizeTar_results b acc rc"
  by (induction b acc rc rule: GetScrutinizeTar_results.induct) auto

text \<open>
  C3, as amended. \<open>NMADeleteDirectoriesOp.processResult\<close> returns a joined error that
  wraps the error of every host whose result carries one.
  \<open>NMAGetScrutinizeTarOp.processResult\<close> returns a joined error that wraps the error of
  every such host whose status code is not 500.
\<close>

theorem host_failures_in_joined_error:
  "(\<forall>(h, r) \<in> set (ResultCollection (clusterHTTPRequest dop)). \<forall>e. err r = Some e
       \<longrightarrow> surfaces e (DeleteDirectories_processResult GetJSON dop))
   \<and> (\<forall>(h, r) \<in> set (ResultCollection (clusterHTTPRequest sop)). \<forall>e.
         err r = Some e \<and> \<not> isInternalError r
       \<longrightarrow> surfaces e (GetScrutinizeTar_processResult sop))"
  by (auto simp: DeleteDirectories_processResult_def GetScrutinizeTar_processResult_def
       DeleteDirectories_results_surfaces GetScrutinizeTar_results_surfaces)

theorem host_failures_in_joined_error_witness:
  "surfaces (ErrorString ''disk error'')
     (DeleteDirectories_processResult (\<lambda>c. (Map.empty, None)) exampleDeleteOp)
   \<and> surfaces (ErrorString ''no such batch'') (GetScrutinizeTar_processResult exampleScrutinizeOp)"
  using host_failures_in_joined_error
          [of exampleDeleteOp "\<lambda>c. (Map.empty, None)" exampleScrutinizeOp]
  by (simp add: exampleDeleteOp_def exampleScrutinizeOp_def exampleRequest_def exampleResult_def
        isInternalError_def)

text \<open>
  C3 as stated fails: with one host, failing with status code 500,
  \<open>NMAGetScrutinizeTarOp.processResult\<close> returns nil.
\<close>

theorem scrutinize_drops_internal_error:
  "GetScrutinizeTar_processResult
     \<lparr>name = ''NMAGetScrutinizeTarOp'', hosts = [''10.0.0.1''],
      clusterHTTPRequest =
        \<lparr>RequestCollection = None,
         ResultCollection =
           [(''10.0.0.1'',
             \<lparr>status = FAILURE, statusCode = 500, host = ''10.0.0.1'', content = [],
              err = Some (ErrorString ''tar failed'')\<rparr>)],
         Name = ''NMAGetScrutinizeTarOp'', SemVar = ''1.0.0''\<rparr>,
      skipExecute = False, batch = ''b1'', hostNodeNameMap = Map.empty\<rparr>
   = None"
  by (simp add: GetScrutinizeTar_processResult_def isPassing_def isInternalError_def)

subsection \<open>Short circuit and masking\<close>

lemma FindSubcluster_results_failing_prefix:
  "\<forall>(h, r) \<in> set pre. \<not> isUnauthorizedRequest r \<and> \<not> isPassing r
     \<Longrightarrow> FindSubcluster_results G n sc ig ctx acc (pre @ rc)
         = FindSubcluster_results G n sc ig ctx (fold (\<lambda>(h, r) a. errors_Join [a, err r]) pre acc) rc"
  by (induction pre arbitrary: acc) auto

text \<open>
  C7. When the loop of \<open>HTTPSFindSubclusterOp.processResult\<close> examines a host whose
  status code is 401, it returns the error of that host and leaves the execution context
  as it was, whatever it has accumulated and whatever the results of the hosts after it.
  So does \<open>processResult\<close> when the loop comes to such a host, that is, when every host
  before it has failed with another status code.
\<close>

theorem unauthorized_host_ends_processResult:
  assumes "isUnauthorizedRequest result"
  shows "FindSubcluster_results GetJSON opName sc ignore execContext allErrs ((h, result) # rest)
           = (err result, execContext)
    \<and> (ResultCollection (clusterHTTPRequest op) = pre @ (h, result) # rest
         \<and> (\<forall>(h', r') \<in> set pre. \<not> isUnauthorizedRequest r' \<and> \<not> isPassing r')
         \<longrightarrow> FindSubcluster_processResult GetJSON op execContext = (err result, execContext))"
  using assms
  by (simp add: FindSubcluster_processResult_def FindSubcluster_results_failing_prefix)

theorem unauthorized_host_ends_processResult_witness:
  "FindSubcluster_processResult (\<lambda>c. ([], None))
     (exampleFindOp ''sc1'' False
        [(''10.0.0.1'', exampleResult ''10.0.0.1'' 500 [] (Some (ErrorString ''internal error''))),
         (''10.0.0.2'', exampleResult ''10.0.0.2'' 401 [] (Some (ErrorString ''wrong password''))),
         (''10.0.0.3'', exampleResult ''10.0.0.3'' 200 ''{}'' None)])
     exampleContext
   = (Some (ErrorString ''wrong password''), exampleContext)"
proof -
  let ?r1 = "exampleResult ''10.0.0.1'' 500 [] (Some (ErrorString ''internal error''))"
  let ?r2 = "exampleResult ''10.0.0.2'' 401 [] (Some (ErrorString ''wrong password''))"
  let ?r3 = "exampleResult ''10.0.0.3'' 200 ''{}'' None"
  let ?op = "exampleFindOp ''sc1'' False [(''10.0.0.1'', ?r1), (''10.0.0.2'', ?r2), (''10.0.0.3'', ?r3)]"
  have u: "isUnauthorizedRequest ?r2"
    by (simp add: exampleResult_def isUnauthorizedRequest_def)
  have rc: "ResultCollection (clusterHTTPRequest ?op)
              = [(''10.0.0.1'', ?r1)] @ (''10.0.0.2'', ?r2) # [(''10.0.0.3'', ?r3)]"
    by (simp add: exampleFindOp_def exampleRequest_def)
  have pre: "\<forall>(h', r') \<in> set [(''10.0.0.1'', ?r1)]. \<not> isUnauthorizedRequest r' \<and> \<not> isPassing r'"
    by (simp add: exampleResult_def isUnauthorizedRequest_def isPassing_def)
  have e: "err ?r2 = Some (ErrorString ''wrong password'')"
    by (simp add: exampleResult_def)
  from unauthorized_host_ends_processResult
         [OF u, where op = ?op and pre = "[(''10.0.0.1'', ?r1)]" and h = "''10.0.0.2''"
            and rest = "[(''10.0.0.3'', ?r3)]" and GetJSON = "\<lambda>c. ([], None)"
            and execContext = exampleContext, THEN conjunct2, rule_format, OF conjI, OF rc pre]
  show ?thesis by (simp add: e)
qed

lemma update_present_keys:
  "k \<in> set (map fst t) \<Longrightarrow> map fst (AList.update k v t) = map fst t"
  by (simp add: update_keys)

lemma maskParameters_keys:
  "set ks \<subseteq> set (map fst t) \<Longrightarrow> map fst (maskParameters L ks t) = map fst t"
proof (induction ks arbitrary: t)
  case Nil
  then show ?case by simp
next
  case (Cons k ks)
  then have k: "k \<in> set (map fst t)" and ks: "set ks \<subseteq> set (map fst t)" by auto
  have "map fst (maskParameters L ks (AList.update k maskedValue t)) = map fst t"
    using Cons.IH [of "AList.update k maskedValue t"] ks update_present_keys [OF k] by simp
  with Cons.IH [OF ks] show ?case by (simp add: Let_def)
qed

lemma maskParameters_map_of:
  "map_of (maskParameters L ks t) k
     = (if k \<in> set ks \<and> sensitiveKeyParams (L k) then Some maskedValue else map_of t k)"
  by (induction ks arbitrary: t) (auto simp: Let_def update_conv')

lemma maskParameters_all_keys:
  "map_of (maskParameters L (map fst t) t) k
     = (if sensitiveKeyParams (L k) then map_option (\<lambda>v. maskedValue) (map_of t k)
        else map_of t k)"
proof (cases "map_of t k")
  case None
  then have "k \<notin> set (map fst t)" by (simp add: map_of_eq_None_iff)
  with None show ?thesis by (simp add: maskParameters_map_of)
next
  case (Some v)
  then have "k \<in> set (map fst t)" by (metis map_of_eq_None_iff option.distinct(1) set_map)
  with Some show ?thesis by (simp add: maskParameters_map_of)
qed

lemma maskParameters_fixed:
  "\<forall>k \<in> set ks. sensitiveKeyParams (L k) \<longrightarrow> map_of t k = Some maskedValue
     \<Longrightarrow> maskParameters L ks t = t"
  by (induction ks arbitrary: t) (auto simp: Let_def update_triv)

lemma maskParameters_twice:
  "maskParameters L (map fst (maskParameters L (map fst t) t)) (maskParameters L (map fst t) t)
     = maskParameters L (map fst t) t"
  by (rule maskParameters_fixed) (simp add: maskParameters_keys maskParameters_map_of)

lemma sensitiveKeyParams_iff:
  "sensitiveKeyParams k
     \<longleftrightarrow> k \<in> {''awsauth'', ''awssessiontoken'', ''gcsauth'', ''azurestoragecredentials''}"
  by (auto simp: sensitiveKeyParams_def)

text \<open>
  C9. Masking a value that has been masked changes neither the value nor the heap.
  Masking keeps the keys of every table, in their order; it sets the three credential
  fields to the placeholder and leaves the reference \<open>Parameters\<close> and every other table
  as they were; and in the table of \<open>Parameters\<close> a key whose lower-cased form is in the
  deny-list maps to the placeholder, every other key to its former value.
\<close>

theorem maskSensitiveInfo_idempotent_keeps_keys:
  assumes "maskSensitiveInfo ToLower sf hp = (sf', hp')"
  shows "maskSensitiveInfo ToLower sf' hp' = (sf', hp')
    \<and> (\<forall>a. map fst (hp' a) = map fst (hp a))
    \<and> sf' = sf\<lparr>DBPassword := ''******'', AWSAccessKeyID := ''******'',
                   AWSSecretAccessKey := ''******''\<rparr>
    \<and> (\<forall>a. Parameters sf \<noteq> Some a \<longrightarrow> hp' a = hp a)
    \<and> (\<forall>a k. Parameters sf = Some a \<longrightarrow>
           map_of (hp' a) k =
             (if ToLower k \<in> {''awsauth'', ''awssessiontoken'', ''gcsauth'', ''azurestoragecredentials''}
              then map_option (\<lambda>v. ''******'') (map_of (hp a) k)
              else map_of (hp a) k))"
proof -
  have 1: "maskSensitiveInfo ToLower sf' hp' = (sf', hp')"
    using assms
    by (auto simp: maskSensitiveInfo_def Let_def maskParameters_twice split: option.splits)
  have 2: "\<forall>a. map fst (hp' a) = map fst (hp a)"
    using assms
    by (auto simp: maskSensitiveInfo_def Let_def maskParameters_keys split: option.splits)
  have 3: "sf' = sf\<lparr>DBPassword := ''******'', AWSAccessKeyID := ''******'',
                   AWSSecretAccessKey := ''******''\<rparr>"
    using assms
    by (auto simp: maskSensitiveInfo_def Let_def maskedValue_def split: option.splits)
  have 4: "\<forall>a. Parameters sf \<noteq> Some a \<longrightarrow> hp' a = hp a"
    using assms
    by (auto simp: maskSensitiveInfo_def Let_def split: option.splits)
  have 5: "\<forall>a k. Parameters sf = Some a \<longrightarrow>
           map_of (hp' a) k =
             (if ToLower k \<in> {''awsauth'', ''awssessiontoken'', ''gcsauth'', ''azurestoragecredentials''}
              then map_option (\<lambda>v. ''******'') (map_of (hp a) k)
              else map_of (hp a) k)"
    using assms
    by (auto simp: maskSensitiveInfo_def Let_def maskParameters_all_keys sensitiveKeyParams_iff
          maskedValue_def split: option.splits)
  from 1 2 3 4 5 show ?thesis by blast
qed

theorem maskSensitiveInfo_idempotent_keeps_keys_witness:
  "maskSensitiveInfo asciiToLower exampleSensitiveFields exampleHeap
     = (exampleSensitiveFields\<lparr>DBPassword := ''******'', AWSAccessKeyID := ''******'',
            AWSSecretAccessKey := ''******''\<rparr>,
        exampleHeap(0 := [(''AWSAuth'', ''******''), (''KsafeLevel'', ''1'')]))
   \<and> maskSensitiveInfo asciiToLower
        (exampleSensitiveFields\<lparr>DBPassword := ''******'', AWSAccessKeyID := ''******'',
            AWSSecretAccessKey := ''******''\<rparr>)
        (exampleHeap(0 := [(''AWSAuth'', ''******''), (''KsafeLevel'', ''1'')]))
     = (exampleSensitiveFields\<lparr>DBPassword := ''******'', AWSAccessKeyID := ''******'',
            AWSSecretAccessKey := ''******''\<rparr>,
        exampleHeap(0 := [(''AWSAuth'', ''******''), (''KsafeLevel'', ''1'')]))"
proof -
  have m: "maskSensitiveInfo asciiToLower exampleSensitiveFields exampleHeap
     = (exampleSensitiveFields\<lparr>DBPassword := ''******'', AWSAccessKeyID := ''******'',
            AWSSecretAccessKey := ''******''\<rparr>,
        exampleHeap(0 := [(''AWSAuth'', ''******''), (''KsafeLevel'', ''1'')]))"
    by (simp add: maskSensitiveInfo_def exampleSensitiveFields_def exampleHeap_def
          asciiToLower_def sensitiveKeyParams_def maskedValue_def Let_def)
  from maskSensitiveInfo_idempotent_keeps_keys [OF m] m show ?thesis by blast
qed

subsection \<open>Network profiles and request collections\<close>

lemma NetworkProfile_results_all_parsed:
  "\<forall>(h, r) \<in> set rc. isPassing r \<longrightarrow> snd (parseResponse G C (content r)) = None \<Longrightarrow>
   distinct (map fst rc) \<Longrightarrow>
   \<exists>m. NetworkProfile_results G C n ctx acc profs rc =
     (fold (\<lambda>(h, r) a. errors_Join [a, err r]) (filter (\<lambda>(h, r). \<not> isPassing r) rc) acc,
      ctx\<lparr>networkProfiles := Some m\<rparr>)
     \<and> (\<forall>h. m h = (case map_of rc h of None \<Rightarrow> profs h
                      | Some r \<Rightarrow> if isPassing r then Some (fst (parseResponse G C (content r)))
                                  else profs h))"
proof (induction rc arbitrary: acc profs)
  case Nil
  then show ?case by auto
next
  case (Cons x rc)
  obtain h r where x: "x = (h, r)" by (cases x)
  from Cons.prems have rest: "\<forall>(h, r) \<in> set rc. isPassing r \<longrightarrow> snd (parseResponse G C (content r)) = None"
    and d: "distinct (map fst rc)" by simp_all
  from Cons.prems x have "h \<notin> fst ` set rc" by auto
  then have none: "map_of rc h = None" by (simp add: map_of_eq_None_iff)
  show ?case
  proof (cases "isPassing r")
    case True
    with Cons.prems x have "snd (parseResponse G C (content r)) = None" by simp
    then have "case parseResponse G C (content r) of (p, e) \<Rightarrow> e = None \<and> p = fst (parseResponse G C (content r))"
      by (simp add: case_prod_beta)
    then have step: "NetworkProfile_results G C n ctx acc profs ((h, r) # rc)
        = NetworkProfile_results G C n ctx acc (profs(h \<mapsto> fst (parseResponse G C (content r)))) rc"
      using True by (auto split: prod.splits)
    from Cons.IH [OF rest d, of acc "profs(h \<mapsto> fst (parseResponse G C (content r)))"]
    obtain m where m: "NetworkProfile_results G C n ctx acc (profs(h \<mapsto> fst (parseResponse G C (content r)))) rc =
        (fold (\<lambda>(h, r) a. errors_Join [a, err r]) (filter (\<lambda>(h, r). \<not> isPassing r) rc) acc,
         ctx\<lparr>networkProfiles := Some m\<rparr>)"
      and mh: "\<And>k. m k = (case map_of rc k of None \<Rightarrow> (profs(h \<mapsto> fst (parseResponse G C (content r)))) k
                      | Some r' \<Rightarrow> if isPassing r' then Some (fst (parseResponse G C (content r')))
                                  else (profs(h \<mapsto> fst (parseResponse G C (content r)))) k)"
      by blast
    have "\<forall>k. m k = (case map_of ((h, r) # rc) k of None \<Rightarrow> profs k
                      | Some r' \<Rightarrow> if isPassing r' then Some (fst (parseResponse G C (content r')))
                                  else profs k)"
      using mh none True by (auto split: option.splits)
    with m step x True show ?thesis by auto
  next
    case False
    then have step: "NetworkProfile_results G C n ctx acc profs ((h, r) # rc)
        = NetworkProfile_results G C n ctx (errors_Join [acc, err r]) profs rc"
      by simp
    from Cons.IH [OF rest d, of "errors_Join [acc, err r]" profs]
    obtain m where m: "NetworkProfile_results G C n ctx (errors_Join [acc, err r]) profs rc =
        (fold (\<lambda>(h, r) a. errors_Join [a, err r]) (filter (\<lambda>(h, r). \<not> isPassing r) rc)
           (errors_Join [acc, err r]),
         ctx\<lparr>networkProfiles := Some m\<rparr>)"
      and mh: "\<And>k. m k = (case map_of rc k of None \<Rightarrow> profs k
                      | Some r' \<Rightarrow> if isPassing r' then Some (fst (parseResponse G C (content r')))
                                  else profs k)"
      by blast
    have "\<forall>k. m k = (case map_of ((h, r) # rc) k of None \<Rightarrow> profs k
                      | Some r' \<Rightarrow> if isPassing r' then Some (fst (parseResponse G C (content r')))
                                  else profs k)"
      using mh none False by (auto split: option.splits)
    with m step x False show ?thesis by auto
  qed
qed

lemma NetworkProfile_results_first_failure:
  assumes "\<forall>(h, r) \<in> set pre. isPassing r \<longrightarrow> snd (parseResponse G C (content r)) = None"
    and "isPassing result" and "parseResponse G C (content result) = (p, Some e)"
  shows "NetworkProfile_results G C n ctx acc profs (pre @ (h, result) # rest) =
     (Some (Errorf (''['' @ n @ ''] fail to parse network profile on host '' @ h
                     @ '', details: '') e), ctx)"
  using assms(1)
proof (induction pre arbitrary: acc profs)
  case Nil
  with assms(2,3) show ?case by simp
next
  case (Cons x pre)
  obtain h' r' where x: "x = (h', r')" by (cases x)
  from Cons.prems have rest: "\<forall>(h, r) \<in> set pre. isPassing r \<longrightarrow> snd (parseResponse G C (content r)) = None"
    by simp
  show ?case
  proof (cases "isPassing r'")
    case True
    with Cons.prems x have "snd (parseResponse G C (content r')) = None" by simp
    then have "case parseResponse G C (content r') of (p, e) \<Rightarrow> e = None"
      by (simp add: case_prod_beta)
    then have "NetworkProfile_results G C n ctx acc profs (((h', r') # pre) @ (h, result) # rest)
        = NetworkProfile_results G C n ctx acc
            (profs(h' \<mapsto> fst (parseResponse G C (content r')))) (pre @ (h, result) # rest)"
      using True by (auto split: prod.splits)
    with Cons.IH [OF rest] x show ?thesis by simp
  next
    case False
    then have "NetworkProfile_results G C n ctx acc profs (((h', r') # pre) @ (h, result) # rest)
        = NetworkProfile_results G C n ctx (errors_Join [acc, err r']) profs (pre @ (h, result) # rest)"
      by simp
    with Cons.IH [OF rest] x show ?thesis by simp
  qed
qed

lemma NetworkProfile_results_some_failure:
  assumes "(h, r) \<in> set rc" and "isPassing r" and "snd (parseResponse G C (content r)) \<noteq> None"
  shows "\<exists>e. NetworkProfile_results G C n ctx acc profs rc = (Some e, ctx)"
proof -
  let ?bad = "\<lambda>x. isPassing (snd x) \<and> snd (parseResponse G C (content (snd x))) \<noteq> None"
  from assms have "\<exists>x \<in> set rc. ?bad x" by force
  then obtain pre x rest where s: "rc = pre @ x # rest" and b: "?bad x"
    and g: "\<forall>y \<in> set pre. \<not> ?bad y"
    by (rule split_list_first_propE)
  obtain h' r' where x: "x = (h', r')" by (cases x)
  from b x obtain p e where pe: "isPassing r'" "parseResponse G C (content r') = (p, Some e)"
    by (cases "parseResponse G C (content r')") auto
  from g have "\<forall>(h, r) \<in> set pre. isPassing r \<longrightarrow> snd (parseResponse G C (content r)) = None"
    by auto
  from NetworkProfile_results_first_failure [OF this pe]
  have "NetworkProfile_results G C n ctx acc profs (pre @ (h', r') # rest) =
     (Some (Errorf (''['' @ n @ ''] fail to parse network profile on host '' @ h'
                     @ '', details: '') e), ctx)" .
  then show ?thesis unfolding s x by blast
qed

lemma fold_Join_keeps:
  "surfaces e acc \<Longrightarrow> surfaces e (fold (\<lambda>(h, r) a. errors_Join [a, err r]) rc acc)"
  by (induction rc arbitrary: acc) (auto simp: surfaces_Join_left)

lemma fold_Join_surfaces:
  "(h, r) \<in> set rc \<Longrightarrow> err r = Some e
     \<Longrightarrow> surfaces e (fold (\<lambda>(h, r) a. errors_Join [a, err r]) rc acc)"
proof (induction rc arbitrary: acc)
  case Nil
  then show ?case by simp
next
  case (Cons x rc)
  show ?case
  proof (cases "x = (h, r)")
    case True
    with Cons.prems show ?thesis
      by (simp add: fold_Join_keeps surfaces_Join_right surfaces_self)
  next
    case False
    with Cons.prems have "(h, r) \<in> set rc" by auto
    from Cons.IH [OF this Cons.prems(2)] show ?thesis by simp
  qed
qed

lemma errors_Join_None: "errors_Join [a, b] = None \<longleftrightarrow> a = None \<and> b = None"
  by (cases a; cases b) (simp_all add: errors_Join_pair)

lemma fold_Join_None:
  "fold (\<lambda>(h, r) a. errors_Join [a, err r]) rc acc = None
     \<longleftrightarrow> acc = None \<and> (\<forall>(h, r) \<in> set rc. err r = None)"
  by (induction rc arbitrary: acc) (auto simp: errors_Join_None)

lemma NetworkProfile_processResult_parseResponse:
  assumes rc: "rc = ResultCollection (clusterHTTPRequest op)"
  shows "(\<forall>pre h r rest p e.
            rc = pre @ (h, r) # rest
            \<and> (\<forall>(h', r') \<in> set pre. isPassing r' \<longrightarrow>
                   snd (parseResponse GetJSON CheckMissingFields (content r')) = None)
            \<and> isPassing r \<and> parseResponse GetJSON CheckMissingFields (content r) = (p, Some e)
            \<longrightarrow> NetworkProfile_processResult GetJSON CheckMissingFields op execContext
                  = (Some (Errorf (''['' @ name op @ ''] fail to parse network profile on host '' @ h
                                    @ '', details: '') e), execContext))
    \<and> ((\<exists>(h, r) \<in> set rc. isPassing r
            \<and> snd (parseResponse GetJSON CheckMissingFields (content r)) \<noteq> None) \<longrightarrow>
            (\<exists>e. NetworkProfile_processResult GetJSON CheckMissingFields op execContext
                    = (Some e, execContext)))
    \<and> ((\<forall>(h, r) \<in> set rc. isPassing r \<longrightarrow>
            snd (parseResponse GetJSON CheckMissingFields (content r)) = None)
         \<and> distinct (map fst rc) \<longrightarrow>
            (\<exists>allErrs. NetworkProfile_processResult GetJSON CheckMissingFields op execContext
                    = (allErrs,
                       execContext\<lparr>networkProfiles :=
                         Some (\<lambda>h. case map_of rc h of None \<Rightarrow> None
                                    | Some r \<Rightarrow>
                                        if isPassing r
                                        then Some (fst (parseResponse GetJSON CheckMissingFields (content r)))
                                        else None)\<rparr>)
               \<and> (\<forall>(h, r) \<in> set rc. \<forall>e. err r = Some e \<longrightarrow> surfaces e allErrs)
               \<and> (allErrs = None \<longleftrightarrow> (\<forall>(h, r) \<in> set rc. isPassing r))))"
    (is "?first \<and> ?some \<and> ?all")
proof -
  have 1: ?first
    unfolding NetworkProfile_processResult_def rc [symmetric]
    by (auto simp: NetworkProfile_results_first_failure)
  have 2: ?some
  proof
    assume "\<exists>(h, r) \<in> set rc. isPassing r
              \<and> snd (parseResponse GetJSON CheckMissingFields (content r)) \<noteq> None"
    then obtain h r where "(h, r) \<in> set rc" "isPassing r"
      "snd (parseResponse GetJSON CheckMissingFields (content r)) \<noteq> None" by auto
    then show "\<exists>e. NetworkProfile_processResult GetJSON CheckMissingFields op execContext
                    = (Some e, execContext)"
      unfolding NetworkProfile_processResult_def rc [symmetric]
      by (rule NetworkProfile_results_some_failure)
  qed
  have 3: ?all
  proof
    assume a: "(\<forall>(h, r) \<in> set rc. isPassing r \<longrightarrow>
                  snd (parseResponse GetJSON CheckMissingFields (content r)) = None)
               \<and> distinct (map fst rc)"
    let ?errs = "fold (\<lambda>(h, r) a. errors_Join [a, err r]) (filter (\<lambda>(h, r). \<not> isPassing r) rc) None"
    let ?profs = "\<lambda>h. case map_of rc h of None \<Rightarrow> None
                     | Some r \<Rightarrow> if isPassing r
                                 then Some (fst (parseResponse GetJSON CheckMissingFields (content r)))
                                 else None"
    from a NetworkProfile_results_all_parsed
           [of rc GetJSON CheckMissingFields "name op" execContext None Map.empty]
    obtain m where m: "NetworkProfile_results GetJSON CheckMissingFields (name op) execContext None
                         Map.empty rc = (?errs, execContext\<lparr>networkProfiles := Some m\<rparr>)"
      and mh: "\<forall>h. m h = ?profs h"
      by auto
    from mh have "m = ?profs" by (intro ext) simp
    with m have r: "NetworkProfile_processResult GetJSON CheckMissingFields op execContext
          = (?errs, execContext\<lparr>networkProfiles := Some ?profs\<rparr>)"
      unfolding NetworkProfile_processResult_def rc [symmetric] by simp
    have s: "\<forall>(h, r) \<in> set rc. \<forall>e. err r = Some e \<longrightarrow> surfaces e ?errs"
      by (auto intro!: fold_Join_surfaces simp: isPassing_def)
    have n: "?errs = None \<longleftrightarrow> (\<forall>(h, r) \<in> set rc. isPassing r)"
      by (auto simp: fold_Join_None isPassing_def)
    from r s n show "\<exists>allErrs. NetworkProfile_processResult GetJSON CheckMissingFields op execContext
                    = (allErrs, execContext\<lparr>networkProfiles := Some ?profs\<rparr>)
               \<and> (\<forall>(h, r) \<in> set rc. \<forall>e. err r = Some e \<longrightarrow> surfaces e allErrs)
               \<and> (allErrs = None \<longleftrightarrow> (\<forall>(h, r) \<in> set rc. isPassing r))"
      by (intro exI [of _ ?errs] conjI)
  qed
  from 1 2 3 show ?thesis by (intro conjI)
qed

lemma parseResponse_decoder:
  "parseResponse GetJSON CheckMissingFields c =
     (fst (GetJSON c),
      case snd (GetJSON c) of Some e \<Rightarrow> Some e | None \<Rightarrow> CheckMissingFields (fst (GetJSON c)))"
  by (cases "GetJSON c")
     (simp add: parseResponse_def parseAndCheckResponse_def split: option.splits)

lemma parseResponse_None:
  "snd (parseResponse GetJSON CheckMissingFields c) = None
     \<longleftrightarrow> snd (GetJSON c) = None \<and> CheckMissingFields (fst (GetJSON c)) = None"
  by (simp add: parseResponse_decoder split: option.splits)

lemma parseResponse_fst: "fst (parseResponse GetJSON CheckMissingFields c) = fst (GetJSON c)"
  by (simp add: parseResponse_decoder)

lemma parseResponse_Some:
  "parseResponse GetJSON CheckMissingFields c = (p, Some e)
     \<longleftrightarrow> p = fst (GetJSON c)
         \<and> (snd (GetJSON c) = Some e
            \<or> snd (GetJSON c) = None \<and> CheckMissingFields (fst (GetJSON c)) = Some e)"
  by (auto simp: parseResponse_decoder split: option.splits)

text \<open>
  C10. \<open>NMANetworkProfileOp.processResult\<close>, in terms of the decoder and of
  \<open>CheckMissingFields\<close>: at the first passing host whose content the decoder returns
  an error for, or whose decoded profile \<open>CheckMissingFields\<close> returns an error for,
  the function returns that error, wrapped with the host, and the execution context as
  it was; so a non-nil error and an unchanged context whenever some passing host does
  not decode or is rejected by the check. When the content of every passing host decodes
  without error and passes the check, \<open>networkProfiles\<close> is assigned the map from each
  passing host to its decoded profile, and the returned error joins the errors of all the
  hosts that are not passing: it is nil only when there is none.
\<close>

theorem NetworkProfile_processResult_all_or_nothing:
  assumes rc: "rc = ResultCollection (clusterHTTPRequest op)"
  shows "(\<forall>pre h r rest e.
            rc = pre @ (h, r) # rest
            \<and> (\<forall>(h', r') \<in> set pre. isPassing r' \<longrightarrow>
                   snd (GetJSON (content r')) = None
                   \<and> CheckMissingFields (fst (GetJSON (content r'))) = None)
            \<and> isPassing r
            \<and> (snd (GetJSON (content r)) = Some e
                \<or> snd (GetJSON (content r)) = None
                   \<and> CheckMissingFields (fst (GetJSON (content r))) = Some e)
            \<longrightarrow> NetworkProfile_processResult GetJSON CheckMissingFields op execContext
                  = (Some (Errorf (''['' @ name op @ ''] fail to parse network profile on host '' @ h
                                    @ '', details: '') e), execContext))
    \<and> ((\<exists>(h, r) \<in> set rc. isPassing r
            \<and> (snd (GetJSON (content r)) \<noteq> None
                \<or> CheckMissingFields (fst (GetJSON (content r))) \<noteq> None)) \<longrightarrow>
            (\<exists>e. NetworkProfile_processResult GetJSON CheckMissingFields op execContext
                    = (Some e, execContext)))
    \<and> ((\<forall>(h, r) \<in> set rc. isPassing r \<longrightarrow>
            snd (GetJSON (content r)) = None
            \<and> CheckMissingFields (fst (GetJSON (content r))) = None)
         \<and> distinct (map fst rc) \<longrightarrow>
            (\<exists>allErrs. NetworkProfile_processResult GetJSON CheckMissingFields op execContext
                    = (allErrs,
                       execContext\<lparr>networkProfiles :=
                         Some (\<lambda>h. case map_of rc h of None \<Rightarrow> None
                                    | Some r \<Rightarrow>
                                        if isPassing r then Some (fst (GetJSON (content r)))
                                        else None)\<rparr>)
               \<and> (\<forall>(h, r) \<in> set rc. \<forall>e. err r = Some e \<longrightarrow> surfaces e allErrs)
               \<and> (allErrs = None \<longleftrightarrow> (\<forall>(h, r) \<in> set rc. isPassing r))))"
    (is "?first \<and> ?some \<and> ?all")
proof -
  note p = NetworkProfile_processResult_parseResponse
             [OF rc, of GetJSON CheckMissingFields execContext]
  have 1: ?first
  proof (intro allI impI)
    fix pre h r rest e
    assume a: "rc = pre @ (h, r) # rest
            \<and> (\<forall>(h', r') \<in> set pre. isPassing r' \<longrightarrow>
                   snd (GetJSON (content r')) = None
                   \<and> CheckMissingFields (fst (GetJSON (content r'))) = None)
            \<and> isPassing r
            \<and> (snd (GetJSON (content r)) = Some e
                \<or> snd (GetJSON (content r)) = None
                   \<and> CheckMissingFields (fst (GetJSON (content r))) = Some e)"
    then have "parseResponse GetJSON CheckMissingFields (content r) = (fst (GetJSON (content r)), Some e)"
      by (simp add: parseResponse_Some)
    moreover from a have "\<forall>(h', r') \<in> set pre. isPassing r' \<longrightarrow>
                   snd (parseResponse GetJSON CheckMissingFields (content r')) = None"
      by (simp add: parseResponse_None)
    ultimately show "NetworkProfile_processResult GetJSON CheckMissingFields op execContext
                  = (Some (Errorf (''['' @ name op @ ''] fail to parse network profile on host '' @ h
                                    @ '', details: '') e), execContext)"
      using a p [THEN conjunct1, rule_format, of pre h r rest "fst (GetJSON (content r))" e]
      by blast
  qed
  have 2: ?some
    using p [THEN conjunct2, THEN conjunct1]
    by (simp add: parseResponse_None)
  have 3: ?all
    using p [THEN conjunct2, THEN conjunct2]
    unfolding parseResponse_None parseResponse_fst by blast
  from 1 2 3 show ?thesis by (intro conjI)
qed

theorem NetworkProfile_processResult_all_or_nothing_witness:
  "NetworkProfile_processResult exampleGetProfile exampleCheckMissingFields
     (exampleProfileOp
        [(''10.0.0.1'', exampleResult ''10.0.0.1'' 200 ''eth0'' None),
         (''10.0.0.2'', exampleResult ''10.0.0.2'' 200 ''partial'' None),
         (''10.0.0.3'', exampleResult ''10.0.0.3'' 200 ''eth0'' None)])
     exampleContext
   = (Some (Errorf ''[NMANetworkProfileOp] fail to parse network profile on host 10.0.0.2, details: ''
              (ErrorString ''missing field'')),
      exampleContext)
   \<and> NetworkProfile_processResult exampleGetProfile exampleCheckMissingFields
       (exampleProfileOp
          [(''10.0.0.1'', exampleResult ''10.0.0.1'' 200 ''eth0'' None),
           (''10.0.0.2'', exampleResult ''10.0.0.2'' 200 ''garbled'' None)])
       exampleContext
     = (Some (Errorf ''[NMANetworkProfileOp] fail to parse network profile on host 10.0.0.2, details: ''
                (ErrorString ''invalid JSON'')),
        exampleContext)
   \<and> (\<exists>m. networkProfiles (snd
         (NetworkProfile_processResult exampleGetProfile exampleCheckMissingFields
            (exampleProfileOp
               [(''10.0.0.1'', exampleResult ''10.0.0.1'' 200 ''eth0'' None),
                (''10.0.0.2'', exampleResult ''10.0.0.2'' 500 [] (Some (ErrorString ''down'')))])
            exampleContext)) = Some m
        \<and> m ''10.0.0.1'' = Some exampleProfile \<and> m ''10.0.0.2'' = None)
   \<and> surfaces (ErrorString ''down'') (fst
         (NetworkProfile_processResult exampleGetProfile exampleCheckMissingFields
            (exampleProfileOp
               [(''10.0.0.1'', exampleResult ''10.0.0.1'' 200 ''eth0'' None),
                (''10.0.0.2'', exampleResult ''10.0.0.2'' 500 [] (Some (ErrorString ''down'')))])
            exampleContext))"
proof -
  let ?G = exampleGetProfile and ?C = exampleCheckMissingFields
  let ?r1 = "exampleResult ''10.0.0.1'' 200 ''eth0'' None"
  let ?r2 = "exampleResult ''10.0.0.2'' 200 ''partial'' None"
  let ?r3 = "exampleResult ''10.0.0.3'' 200 ''eth0'' None"
  let ?g2 = "exampleResult ''10.0.0.2'' 200 ''garbled'' None"
  let ?f2 = "exampleResult ''10.0.0.2'' 500 [] (Some (ErrorString ''down''))"
  let ?bad = "exampleProfileOp [(''10.0.0.1'', ?r1), (''10.0.0.2'', ?r2), (''10.0.0.3'', ?r3)]"
  let ?garbled = "exampleProfileOp [(''10.0.0.1'', ?r1), (''10.0.0.2'', ?g2)]"
  let ?good = "exampleProfileOp [(''10.0.0.1'', ?r1), (''10.0.0.2'', ?f2)]"
  have ev: "?G (content ?r1) = (exampleProfile, None)"
    "?C exampleProfile = None"
    "?G (content ?r2) = (exampleProfile\<lparr>npBroadcast := []\<rparr>, None)"
    "?C (exampleProfile\<lparr>npBroadcast := []\<rparr>) = Some (ErrorString ''missing field'')"
    "?G (content ?g2) = (exampleProfile\<lparr>npName := []\<rparr>, Some (ErrorString ''invalid JSON''))"
    "isPassing ?r1" "isPassing ?r2" "isPassing ?g2" "\<not> isPassing ?f2"
    "err ?f2 = Some (ErrorString ''down'')"
    by (simp_all add: exampleGetProfile_def exampleCheckMissingFields_def exampleProfile_def
          exampleResult_def isPassing_def)
  have rcs: "ResultCollection (clusterHTTPRequest ?bad)
               = [(''10.0.0.1'', ?r1)] @ (''10.0.0.2'', ?r2) # [(''10.0.0.3'', ?r3)]"
    "ResultCollection (clusterHTTPRequest ?garbled)
               = [(''10.0.0.1'', ?r1)] @ (''10.0.0.2'', ?g2) # []"
    "ResultCollection (clusterHTTPRequest ?good) = [(''10.0.0.1'', ?r1), (''10.0.0.2'', ?f2)]"
    "name ?bad = ''NMANetworkProfileOp''" "name ?garbled = ''NMANetworkProfileOp''"
    by (simp_all add: exampleProfileOp_def exampleRequest_def)
  have a: "NetworkProfile_processResult ?G ?C ?bad exampleContext
      = (Some (Errorf ''[NMANetworkProfileOp] fail to parse network profile on host 10.0.0.2, details: ''
              (ErrorString ''missing field'')), exampleContext)"
    using NetworkProfile_processResult_all_or_nothing
            [OF refl, where GetJSON = ?G and CheckMissingFields = ?C and op = ?bad
               and execContext = exampleContext, THEN conjunct1, rule_format,
             of "[(''10.0.0.1'', ?r1)]" "''10.0.0.2''" ?r2 "[(''10.0.0.3'', ?r3)]"
                "ErrorString ''missing field''"]
          ev rcs
    by simp
  have b: "NetworkProfile_processResult ?G ?C ?garbled exampleContext
      = (Some (Errorf ''[NMANetworkProfileOp] fail to parse network profile on host 10.0.0.2, details: ''
              (ErrorString ''invalid JSON'')), exampleContext)"
    using NetworkProfile_processResult_all_or_nothing
            [OF refl, where GetJSON = ?G and CheckMissingFields = ?C and op = ?garbled
               and execContext = exampleContext, THEN conjunct1, rule_format,
             of "[(''10.0.0.1'', ?r1)]" "''10.0.0.2''" ?g2 "[]"
                "ErrorString ''invalid JSON''"]
          ev rcs
    by simp
  from NetworkProfile_processResult_all_or_nothing
         [OF refl, where GetJSON = ?G and CheckMissingFields = ?C and op = ?good
            and execContext = exampleContext, THEN conjunct2, THEN conjunct2, rule_format]
  obtain allErrs where
    g: "NetworkProfile_processResult ?G ?C ?good exampleContext
          = (allErrs, exampleContext\<lparr>networkProfiles :=
               Some (\<lambda>h. case map_of (ResultCollection (clusterHTTPRequest ?good)) h of None \<Rightarrow> None
                     | Some r \<Rightarrow> if isPassing r then Some (fst (?G (content r))) else None)\<rparr>)"
    and s: "\<forall>(h, r) \<in> set (ResultCollection (clusterHTTPRequest ?good)).
              \<forall>e. err r = Some e \<longrightarrow> surfaces e allErrs"
    using ev rcs by auto
  from s ev rcs have "surfaces (ErrorString ''down'') allErrs" by simp
  with a b g ev rcs show ?thesis by simp
qed

lemma assignRequests_Some:
  "assignRequests f hs (Some m) = Inr (Some (\<lambda>h. if h \<in> set hs then Some (f h) else m h))"
proof (induction hs arbitrary: m)
  case Nil
  then show ?case by simp
next
  case (Cons a hs)
  have "assignRequests f (a # hs) (Some m) = assignRequests f hs (Some (m(a \<mapsto> f a)))"
    by simp
  also have "\<dots> = Inr (Some (\<lambda>h. if h \<in> set hs then Some (f h) else (m(a \<mapsto> f a)) h))"
    by (rule Cons.IH)
  also have "\<dots> = Inr (Some (\<lambda>h. if h \<in> set (a # hs) then Some (f h) else m h))"
    by (simp add: fun_eq_iff)
  finally show ?case .
qed

lemma storeRequests_adds_hosts:
  assumes "storeRequests f hs op = Inr (op', e)"
    and "RequestCollection (clusterHTTPRequest op) = Some m"
  shows "\<exists>m'. RequestCollection (clusterHTTPRequest op') = Some m' \<and> dom m' = dom m \<union> set hs"
  using assms by (auto simp: storeRequests_def assignRequests_Some dom_def)

lemma storeRequests_nil_collection:
  "RequestCollection (clusterHTTPRequest op) = None \<Longrightarrow>
     storeRequests f hs op = (if hs = [] then Inr (op, None) else Inl AssignmentToEntryInNilMap)"
  by (cases hs) (simp_all add: storeRequests_def)










subsection \<open>Finding the subcluster\<close>

lemma scanSCInfoList_Cons:
  "scanSCInfoList sc (i # l) (fn, fd, d) =
     (if (SCName i = sc \<or> fn) \<and> (IsDefault i \<or> fd)
      then (SCName i = sc \<or> fn, IsDefault i \<or> fd, if IsDefault i then SCName i else d)
      else scanSCInfoList sc l
             (SCName i = sc \<or> fn, IsDefault i \<or> fd, if IsDefault i then SCName i else d))"
  by (auto simp: Let_def)

lemma scanSCInfoList_flags:
  "scanSCInfoList sc l (fn, fd, d) = (fn', fd', d') \<Longrightarrow>
     (fn' \<longleftrightarrow> fn \<or> (\<exists>i \<in> set l. SCName i = sc))
   \<and> (fd' \<longleftrightarrow> fd \<or> (\<exists>i \<in> set l. IsDefault i))
   \<and> (d' = d \<or> (\<exists>i \<in> set l. IsDefault i \<and> SCName i = d'))
   \<and> (\<not> fd \<and> fd' \<longrightarrow> (\<exists>i \<in> set l. IsDefault i \<and> SCName i = d'))"
proof (induction l arbitrary: fn fd d)
  case Nil
  then show ?case by simp
next
  case (Cons i l)
  let ?fn = "SCName i = sc \<or> fn"
  let ?fd = "IsDefault i \<or> fd"
  let ?d = "if IsDefault i then SCName i else d"
  show ?case
  proof (cases "?fn \<and> ?fd")
    case True
    with Cons.prems have "fn' = ?fn" "fd' = ?fd" "d' = ?d"
      unfolding scanSCInfoList_Cons by simp_all
    with True show ?thesis by auto
  next
    case False
    with Cons.prems have "scanSCInfoList sc l (?fn, ?fd, ?d) = (fn', fd', d')"
      unfolding scanSCInfoList_Cons by simp
    from Cons.IH [OF this] show ?thesis by (auto split: if_splits)
  qed
qed

text \<open>
  C6, as amended. Let a host be reached by the loop of
  \<open>HTTPSFindSubclusterOp.processResult\<close> (every host before it has failed with a status
  code other than 401), let its status code not be 401, its result be passing and its
  content decode to a subcluster list. If the list has an entry with \<open>is_default\<close>, and
  \<open>scName\<close> is empty, or \<open>ignoreNotFound\<close> is set, or \<open>scName\<close> occurs in the list,
  then the function returns nil and \<open>defaultSCName\<close> is the name of an entry of the list
  with \<open>is_default\<close>. If \<open>scName\<close> is not empty, \<open>ignoreNotFound\<close> is not set and
  \<open>scName\<close> does not occur in the list, the function returns a non-nil error that
  wraps the message that the subcluster does not exist. Neither depends on the hosts
  after that one.
\<close>

theorem first_answering_host_decides:
  assumes rc: "ResultCollection (clusterHTTPRequest op) = pre @ (h, result) # rest"
    and pre: "\<forall>(h', r') \<in> set pre. \<not> isUnauthorizedRequest r' \<and> \<not> isPassing r'"
    and res: "\<not> isUnauthorizedRequest result" "isPassing result"
    and parsed: "GetJSON (content result) = (scResp, None)"
  shows "((\<exists>i \<in> set scResp. IsDefault i)
          \<and> (scName op = [] \<or> ignoreNotFound op \<or> (\<exists>i \<in> set scResp. SCName i = scName op))
          \<longrightarrow> (\<exists>i \<in> set scResp. IsDefault i
                \<and> FindSubcluster_processResult GetJSON op execContext
                    = (None, execContext\<lparr>defaultSCName := SCName i\<rparr>)))
    \<and> (scName op \<noteq> [] \<and> \<not> ignoreNotFound op \<and> (\<forall>i \<in> set scResp. SCName i \<noteq> scName op)
          \<longrightarrow> (\<exists>e. fst (FindSubcluster_processResult GetJSON op execContext) = Some e
                \<and> ErrorString (''['' @ name op @ ''] subcluster '' @ [CHR 0x27] @ scName op
                                 @ [CHR 0x27] @ '' does not exist in the database'')
                    \<in> set (wrapped e)))"
proof -
  let ?acc = "fold (\<lambda>(h, r) a. errors_Join [a, err r]) pre None"
  obtain fn fd d where scan:
    "scanSCInfoList (scName op) scResp (False, False, defaultSCName execContext) = (fn, fd, d)"
    by (cases "scanSCInfoList (scName op) scResp (False, False, defaultSCName execContext)") auto
  note flags = scanSCInfoList_flags [OF scan]
  have run: "FindSubcluster_processResult GetJSON op execContext =
      (let execContext' = execContext\<lparr>defaultSCName := d\<rparr>
       in if scName op \<noteq> [] \<and> \<not> ignoreNotFound op \<and> \<not> fn then
            (errors_Join [?acc,
               Some (ErrorString (''['' @ name op @ ''] subcluster '' @ [CHR 0x27] @ scName op
                       @ [CHR 0x27] @ '' does not exist in the database''))],
             execContext')
          else if \<not> fd then
            (errors_Join [?acc,
               Some (ErrorString (''['' @ name op
                       @ ''] cannot find a default subcluster in the database''))],
             execContext')
          else (None, execContext'))"
    unfolding FindSubcluster_processResult_def rc
      FindSubcluster_results_failing_prefix [OF pre]
    using res parsed scan by (simp add: parseAndCheckResponse_def Let_def)
  have 1: "(\<exists>i \<in> set scResp. IsDefault i)
          \<and> (scName op = [] \<or> ignoreNotFound op \<or> (\<exists>i \<in> set scResp. SCName i = scName op))
          \<longrightarrow> (\<exists>i \<in> set scResp. IsDefault i
                \<and> FindSubcluster_processResult GetJSON op execContext
                    = (None, execContext\<lparr>defaultSCName := SCName i\<rparr>))"
  proof
    assume a: "(\<exists>i \<in> set scResp. IsDefault i)
          \<and> (scName op = [] \<or> ignoreNotFound op \<or> (\<exists>i \<in> set scResp. SCName i = scName op))"
    with flags have fd: fd and fn: "scName op = [] \<or> ignoreNotFound op \<or> fn" by auto
    from flags fd obtain i where i: "i \<in> set scResp" "IsDefault i" "SCName i = d" by auto
    from run fd fn have "FindSubcluster_processResult GetJSON op execContext
        = (None, execContext\<lparr>defaultSCName := d\<rparr>)"
      by (auto simp: Let_def)
    with i show "\<exists>i \<in> set scResp. IsDefault i
                \<and> FindSubcluster_processResult GetJSON op execContext
                    = (None, execContext\<lparr>defaultSCName := SCName i\<rparr>)"
      by auto
  qed
  have 2: "scName op \<noteq> [] \<and> \<not> ignoreNotFound op \<and> (\<forall>i \<in> set scResp. SCName i \<noteq> scName op)
          \<longrightarrow> (\<exists>e. fst (FindSubcluster_processResult GetJSON op execContext) = Some e
                \<and> ErrorString (''['' @ name op @ ''] subcluster '' @ [CHR 0x27] @ scName op
                                 @ [CHR 0x27] @ '' does not exist in the database'')
                    \<in> set (wrapped e))"
  proof
    assume a: "scName op \<noteq> [] \<and> \<not> ignoreNotFound op \<and> (\<forall>i \<in> set scResp. SCName i \<noteq> scName op)"
    with flags have "\<not> fn" by auto
    with run a have "fst (FindSubcluster_processResult GetJSON op execContext)
        = errors_Join [?acc,
               Some (ErrorString (''['' @ name op @ ''] subcluster '' @ [CHR 0x27] @ scName op
                       @ [CHR 0x27] @ '' does not exist in the database''))]"
      by (simp add: Let_def)
    moreover have "surfaces (ErrorString (''['' @ name op @ ''] subcluster '' @ [CHR 0x27] @ scName op
                       @ [CHR 0x27] @ '' does not exist in the database''))
        (errors_Join [?acc,
               Some (ErrorString (''['' @ name op @ ''] subcluster '' @ [CHR 0x27] @ scName op
                       @ [CHR 0x27] @ '' does not exist in the database''))])"
      by (rule surfaces_Join_right) (rule surfaces_self)
    ultimately show "\<exists>e. fst (FindSubcluster_processResult GetJSON op execContext) = Some e
                \<and> ErrorString (''['' @ name op @ ''] subcluster '' @ [CHR 0x27] @ scName op
                                 @ [CHR 0x27] @ '' does not exist in the database'')
                    \<in> set (wrapped e)"
      by (auto simp: surfaces_def split: option.splits)
  qed
  from 1 2 show ?thesis by (intro conjI)
qed

theorem first_answering_host_decides_witness:
  "FindSubcluster_processResult exampleSubclusters
     (exampleFindOp ''sc1'' False
        [(''10.0.0.1'', exampleResult ''10.0.0.1'' 500 [] (Some (ErrorString ''internal error''))),
         (''10.0.0.2'', exampleResult ''10.0.0.2'' 200 ''subclusters'' None),
         (''10.0.0.3'', exampleResult ''10.0.0.3'' 200 ''subclusters'' None)])
     exampleContext
   = (None, exampleContext\<lparr>defaultSCName := ''default_subcluster''\<rparr>)
   \<and> (\<exists>e. fst (FindSubcluster_processResult exampleSubclusters
        (exampleFindOp ''sc2'' False
           [(''10.0.0.1'', exampleResult ''10.0.0.1'' 500 [] (Some (ErrorString ''internal error''))),
            (''10.0.0.2'', exampleResult ''10.0.0.2'' 200 ''subclusters'' None),
            (''10.0.0.3'', exampleResult ''10.0.0.3'' 200 ''subclusters'' None)])
        exampleContext) = Some e
      \<and> ErrorString ''[HTTPSFindSubclusterOp] subcluster 'sc2' does not exist in the database''
          \<in> set (wrapped e))"
proof -
  let ?r1 = "exampleResult ''10.0.0.1'' 500 [] (Some (ErrorString ''internal error''))"
  let ?r2 = "exampleResult ''10.0.0.2'' 200 ''subclusters'' None"
  let ?r3 = "exampleResult ''10.0.0.3'' 200 ''subclusters'' None"
  let ?op = "\<lambda>sc. exampleFindOp sc False [(''10.0.0.1'', ?r1), (''10.0.0.2'', ?r2), (''10.0.0.3'', ?r3)]"
  let ?l = "[\<lparr>SCName = ''default_subcluster'', IsDefault = True\<rparr>,
             \<lparr>SCName = ''sc1'', IsDefault = False\<rparr>]"
  have rc: "ResultCollection (clusterHTTPRequest (?op sc))
              = [(''10.0.0.1'', ?r1)] @ (''10.0.0.2'', ?r2) # [(''10.0.0.3'', ?r3)]" for sc
    by (simp add: exampleFindOp_def exampleRequest_def)
  have pre: "\<forall>(h', r') \<in> set [(''10.0.0.1'', ?r1)]. \<not> isUnauthorizedRequest r' \<and> \<not> isPassing r'"
    by (simp add: exampleResult_def isUnauthorizedRequest_def isPassing_def)
  have res: "\<not> isUnauthorizedRequest ?r2" "isPassing ?r2"
    by (simp_all add: exampleResult_def isUnauthorizedRequest_def isPassing_def)
  have parsed: "exampleSubclusters (content ?r2) = (?l, None)"
    by (simp add: exampleSubclusters_def exampleResult_def)
  have f: "scName (?op sc) = sc" "\<not> ignoreNotFound (?op sc)" "name (?op sc) = ''HTTPSFindSubclusterOp''" for sc
    by (simp_all add: exampleFindOp_def)
  note t = first_answering_host_decides
    [where GetJSON = exampleSubclusters and execContext = exampleContext and scResp = ?l
       and pre = "[(''10.0.0.1'', ?r1)]" and h = "''10.0.0.2''" and result = ?r2
       and rest = "[(''10.0.0.3'', ?r3)]", OF _ pre res parsed]
  from t [of "?op ''sc1''", OF rc, THEN conjunct1]
  have a: "FindSubcluster_processResult exampleSubclusters (?op ''sc1'') exampleContext
            = (None, exampleContext\<lparr>defaultSCName := ''default_subcluster''\<rparr>)"
    by (simp add: f)
  from t [of "?op ''sc2''", OF rc, THEN conjunct2]
  have b: "\<exists>e. fst (FindSubcluster_processResult exampleSubclusters (?op ''sc2'') exampleContext) = Some e
      \<and> ErrorString ''[HTTPSFindSubclusterOp] subcluster 'sc2' does not exist in the database''
          \<in> set (wrapped e)"
    by (simp add: f)
  from a b show ?thesis by (intro conjI)
qed

text \<open>
  C6 as stated fails: the second host is passing and its list holds the default
  subcluster and \<open>sc1\<close>, but the first host answers 401, so the function returns the
  error of the first host and \<open>defaultSCName\<close> stays empty.
\<close>

theorem some_host_answering_is_not_enough:
  "isPassing (exampleResult ''10.0.0.2'' 200 ''subclusters'' None)
   \<and> exampleSubclusters (content (exampleResult ''10.0.0.2'' 200 ''subclusters'' None))
       = ([\<lparr>SCName = ''default_subcluster'', IsDefault = True\<rparr>,
           \<lparr>SCName = ''sc1'', IsDefault = False\<rparr>], None)
   \<and> FindSubcluster_processResult exampleSubclusters
        (exampleFindOp ''sc1'' False
           [(''10.0.0.1'', exampleResult ''10.0.0.1'' 401 [] (Some (ErrorString ''wrong password''))),
            (''10.0.0.2'', exampleResult ''10.0.0.2'' 200 ''subclusters'' None)])
        exampleContext
       = (Some (ErrorString ''wrong password''), exampleContext)
   \<and> defaultSCName exampleContext = []"
  by (simp add: FindSubcluster_processResult_def exampleFindOp_def exampleRequest_def
        exampleResult_def exampleSubclusters_def exampleContext_def isPassing_def
        isUnauthorizedRequest_def)

subsection \<open>The bodies of the bootstrap request\<close>

lemma setupRequestBody_hosts_embedded_nil:
  "setupRequestBody_hosts n vdb options hs bodies = Inr (bodies', e)
     \<Longrightarrow> \<forall>h b. bodies h = Some b \<longrightarrow> Parameters b = None
     \<Longrightarrow> \<forall>h b. bodies' h = Some b \<longrightarrow> Parameters b = None"
proof (induction hs arbitrary: bodies)
  case Nil
  then show ?case by simp
next
  case (Cons h hs)
  show ?case
  proof (cases "vnodeStorageLocations (case HostNodeMap vdb h of None \<Rightarrow> zeroNode | Some n \<Rightarrow> n)")
    case Nil
    with Cons.prems show ?thesis by (simp add: Let_def)
  next
    case (Cons location locs)
    with Cons.prems(1) obtain b where
      step: "setupRequestBody_hosts n vdb options hs (bodies(h \<mapsto> b)) = Inr (bodies', e)"
      and b: "Parameters b = None"
      by (auto simp: Let_def zeroRequestData_def split: option.splits)
    from Cons.prems(2) b have "\<forall>h' b'. (bodies(h \<mapsto> b)) h' = Some b' \<longrightarrow> Parameters b' = None"
      by auto
    from Cons.IH [OF step this] show ?thesis .
  qed
qed

lemma maskSensitiveInfo_embedded_nil:
  "Parameters b = None \<Longrightarrow>
     maskSensitiveInfo L b hp
       = (b\<lparr>DBPassword := maskedValue, AWSAccessKeyID := maskedValue,
             AWSSecretAccessKey := maskedValue\<rparr>, hp)"
  by (simp add: maskSensitiveInfo_def Let_def)

lemma updateRequestBody_profiles_Cons:
  "Parameters (withBroadcast bodies h profile) = None \<Longrightarrow>
   updateRequestBody_profiles M L ((h, profile) # rest) (bodies, marshaled, masked, hp) =
     (case json_Marshal M hp (withBroadcast bodies h profile) of
        (dataBytes, Some e) \<Rightarrow> (bodies(h \<mapsto> withBroadcast bodies h profile), marshaled, masked, hp)
      | (dataBytes, None) \<Rightarrow>
          updateRequestBody_profiles M L rest
            (bodies(h \<mapsto> withBroadcast bodies h profile), marshaled(h \<mapsto> dataBytes),
             masked(h \<mapsto> (withBroadcast bodies h profile)
                \<lparr>DBPassword := maskedValue, AWSAccessKeyID := maskedValue,
                 AWSSecretAccessKey := maskedValue\<rparr>), hp))"
  by (simp add: Let_def withBroadcast_def maskSensitiveInfo_embedded_nil
           split: prod.splits option.splits)

lemma updateRequestBody_profiles_marshaled:
  assumes "updateRequestBody_profiles M L profiles (bodies, marshaled, masked, hp)
             = (bodies', marshaled', masked', hp')"
    and "\<forall>h b. bodies h = Some b \<longrightarrow> Parameters b = None"
    and "distinct (map fst profiles)"
  shows "hp' = hp
    \<and> (\<forall>k. k \<notin> fst ` set profiles \<longrightarrow> bodies' k = bodies k)
    \<and> (\<forall>k s. marshaled' k = Some s \<longrightarrow>
          marshaled k = Some s
          \<or> (\<exists>profile. (k, profile) \<in> set profiles
                \<and> bodies' k = Some (withBroadcast bodies k profile)
                \<and> json_Marshal M hp (withBroadcast bodies k profile) = (s, None)))"
  using assms
proof (induction profiles arbitrary: bodies marshaled masked)
  case Nil
  then show ?case by simp
next
  case (Cons x profiles)
  obtain h profile where x: "x = (h, profile)" by (cases x)
  let ?b = "withBroadcast bodies h profile"
  let ?bodies = "bodies(h \<mapsto> ?b)"
  have nil: "Parameters ?b = None"
    using Cons.prems(2) by (auto simp: withBroadcast_def zeroRequestData_def split: option.splits)
  from Cons.prems(3) x have d: "distinct (map fst profiles)" and nh: "h \<notin> fst ` set profiles"
    by auto
  have nil': "\<forall>h' b. ?bodies h' = Some b \<longrightarrow> Parameters b = None"
    using Cons.prems(2) nil by auto
  obtain dataBytes e where m: "json_Marshal M hp ?b = (dataBytes, e)"
    by (cases "json_Marshal M hp ?b") auto
  show ?case
  proof (cases e)
    case (Some er)
    with Cons.prems(1) x m have "bodies' = ?bodies" "marshaled' = marshaled" "hp' = hp"
      by (simp_all add: updateRequestBody_profiles_Cons [OF nil]
            del: updateRequestBody_profiles.simps)
    then show ?thesis by (auto simp: x)
  next
    case None
    let ?masked = "masked(h \<mapsto> ?b\<lparr>DBPassword := maskedValue, AWSAccessKeyID := maskedValue,
                       AWSSecretAccessKey := maskedValue\<rparr>)"
    from None Cons.prems(1) x m
    have run: "updateRequestBody_profiles M L profiles
                 (?bodies, marshaled(h \<mapsto> dataBytes), ?masked, hp)
               = (bodies', marshaled', masked', hp')"
      by (simp add: updateRequestBody_profiles_Cons [OF nil]
            del: updateRequestBody_profiles.simps)
    note ih = Cons.IH [OF run nil' d]
    note hp = ih [THEN conjunct1]
    note frame = ih [THEN conjunct2, THEN conjunct1]
    note mar = ih [THEN conjunct2, THEN conjunct2]
    have other: "withBroadcast ?bodies k p = withBroadcast bodies k p" if "k \<noteq> h" for k p
      using that by (simp add: withBroadcast_def)
    have 2: "\<forall>k. k \<notin> fst ` set (x # profiles) \<longrightarrow> bodies' k = bodies k"
      using frame x by auto
    have 3: "marshaled k = Some s
          \<or> (\<exists>profile. (k, profile) \<in> set (x # profiles)
                \<and> bodies' k = Some (withBroadcast bodies k profile)
                \<and> json_Marshal M hp (withBroadcast bodies k profile) = (s, None))"
      if ms: "marshaled' k = Some s" for k s
    proof (cases "k = h")
      case True
      from nh have nk: "\<And>p. (h, p) \<notin> set profiles" by force
      with mar [rule_format, OF ms] True have "s = dataBytes" by auto
      moreover from frame nh have "bodies' h = Some ?b" by simp
      ultimately show ?thesis using True x m None by auto
    next
      case False
      with mar [rule_format, OF ms] other [OF False] show ?thesis by (auto simp: x)
    qed
    from hp 2 3 show ?thesis by blast
  qed
qed

text \<open>
  C2. Let the request bodies be those that \<open>setupRequestBody\<close> builds, and let
  \<open>updateRequestBody\<close> run over any network profiles (the entries of a map, so with
  distinct hosts) from any heap. Then the heap is left as it was: the masking writes to
  no table. And every string stored in \<open>marshaledRequestBodyMap\<close> is what
  \<open>json.Marshal\<close> returns, without error, for the body of that host in
  \<open>hostRequestBodyMap\<close>, which is the body from \<open>setupRequestBody\<close> with the broadcast
  address of the host's profile and with the credentials as they were set, read with the
  table of its parameters as it was before the call.
\<close>

theorem marshaled_bodies_are_unmasked:
  assumes "setupRequestBody opName hostList vdb options = Inr (bodies, e)"
    and "distinct (map fst profiles)"
    and "updateRequestBody Marshal ToLower bodies profiles hp = (bodies', marshaled, masked, hp')"
  shows "hp' = hp
    \<and> (\<forall>h s. marshaled h = Some s \<longrightarrow>
          (\<exists>profile b. (h, profile) \<in> set profiles
             \<and> b = (case bodies h of None \<Rightarrow> zeroRequestData | Some b0 \<Rightarrow> b0)
                     \<lparr>BroadcastAddr := npBroadcast profile\<rparr>
             \<and> bodies' h = Some b
             \<and> Marshal b (map_option hp (ownParameters b)) = (s, None)))"
proof -
  from assms(1) have nil: "\<forall>h b. bodies h = Some b \<longrightarrow> Parameters b = None"
    unfolding setupRequestBody_def
    by (rule setupRequestBody_hosts_embedded_nil) simp
  from assms(3) have run: "updateRequestBody_profiles Marshal ToLower profiles
      (bodies, Map.empty, Map.empty, hp) = (bodies', marshaled, masked, hp')"
    by (simp add: updateRequestBody_def)
  from updateRequestBody_profiles_marshaled [OF run nil assms(2)]
  show ?thesis by (auto simp: withBroadcast_def json_Marshal_def)
qed

lemma exampleSetup:
  "setupRequestBody ''NMABootstrapCatalogOp'' [''10.0.0.1'', ''10.0.0.2''] exampleVdb exampleOptions
     = Inr ([''10.0.0.1'' \<mapsto> exampleBody ''10.0.0.1'' ''v_test_db_node0001'' [],
             ''10.0.0.2'' \<mapsto> exampleBody ''10.0.0.2'' ''v_test_db_node0002'' []], None)"
  by (simp add: setupRequestBody_def exampleVdb_def exampleOptions_def exampleBody_def
        zeroRequestData_def Let_def)

theorem marshaled_bodies_are_unmasked_witness:
  "\<exists>bodies bodies' marshaled masked.
     setupRequestBody ''NMABootstrapCatalogOp'' [''10.0.0.1'', ''10.0.0.2''] exampleVdb exampleOptions
       = Inr (bodies, None)
     \<and> updateRequestBody exampleMarshal asciiToLower bodies exampleNetworkProfiles exampleHeap
         = (bodies', marshaled, masked, exampleHeap)
     \<and> marshaled ''10.0.0.2'' = Some ''10.0.0.2 pw AWSAuth=key:secret KsafeLevel=1''
     \<and> map_option DBPassword (masked ''10.0.0.2'') = Some ''******''"
proof -
  let ?bodies = "[''10.0.0.1'' \<mapsto> exampleBody ''10.0.0.1'' ''v_test_db_node0001'' [],
                  ''10.0.0.2'' \<mapsto> exampleBody ''10.0.0.2'' ''v_test_db_node0002'' []]"
  obtain bodies' marshaled masked hp' where
    u: "updateRequestBody exampleMarshal asciiToLower ?bodies exampleNetworkProfiles exampleHeap
          = (bodies', marshaled, masked, hp')"
    by (cases "updateRequestBody exampleMarshal asciiToLower ?bodies exampleNetworkProfiles exampleHeap")
       auto
  have d: "distinct (map fst exampleNetworkProfiles)"
    by (simp add: exampleNetworkProfiles_def)
  from marshaled_bodies_are_unmasked [OF exampleSetup d u] have hp: "hp' = exampleHeap" ..
  have m: "fst (snd (updateRequestBody exampleMarshal asciiToLower ?bodies exampleNetworkProfiles
             exampleHeap)) ''10.0.0.2'' = Some ''10.0.0.2 pw AWSAuth=key:secret KsafeLevel=1''"
    by (simp add: updateRequestBody_def exampleNetworkProfiles_def exampleBody_def
          exampleMarshal_def json_Marshal_def maskSensitiveInfo_def exampleHeap_def Let_def)
  have k: "map_option DBPassword (fst (snd (snd (updateRequestBody exampleMarshal asciiToLower ?bodies
             exampleNetworkProfiles exampleHeap))) ''10.0.0.2'') = Some ''******''"
    by (simp add: updateRequestBody_def exampleNetworkProfiles_def exampleBody_def
          exampleMarshal_def json_Marshal_def maskSensitiveInfo_def exampleHeap_def Let_def
          maskedValue_def)
  from exampleSetup u hp m k show ?thesis by auto
qed

text \<open>
  What the hiding of the embedded field avoids. Were the embedded \<open>Parameters\<close> the
  reference that the body is marshaled through, the masking of the first host would
  write into the table that the second host is marshaled from.
\<close>

lemma shared_table_would_be_masked:
  "fst (snd (updateRequestBody exampleMarshal asciiToLower
       [''10.0.0.1'' \<mapsto> (exampleBody ''10.0.0.1'' ''v_test_db_node0001'' [])\<lparr>Parameters := Some 0\<rparr>,
        ''10.0.0.2'' \<mapsto> (exampleBody ''10.0.0.2'' ''v_test_db_node0002'' [])\<lparr>Parameters := Some 0\<rparr>]
       exampleNetworkProfiles exampleHeap)) ''10.0.0.2''
   = Some ''10.0.0.2 pw AWSAuth=****** KsafeLevel=1''"
  by (simp add: updateRequestBody_def exampleNetworkProfiles_def exampleBody_def
        exampleMarshal_def json_Marshal_def maskSensitiveInfo_def exampleHeap_def Let_def
        maskedValue_def sensitiveKeyParams_def asciiToLower_def)

end
